theory Spec2Isabelle
  imports Main
begin

section \<open>JavaScript values and string helpers\<close>

text \<open>
  The values the program handles dynamically (what \<open>JSON.parse\<close> returns, what a
  \<open>catch\<close> clause receives, what \<open>normalizeError\<close> takes as \<open>any\<close>) are modelled by
  one datatype. \<open>JError m\<close> is an instance of \<open>Error\<close> whose \<open>message\<close> is \<open>m\<close>.
  Numbers are restricted to integers and strings to ASCII text (\<open>string\<close> is a list
  of 8-bit characters).
\<close>

datatype jsval =
    JUndefined
  | JNull
  | JBoolean bool
  | JNumber int
  | JString string
  | JArray "jsval list"
  | JObject "(string \<times> jsval) list"
  | JError string

text \<open>The \<open>typeof\<close> operator.\<close>

fun typeof :: "jsval \<Rightarrow> string" where
  "typeof JUndefined = ''undefined''"
| "typeof JNull = ''object''"
| "typeof (JBoolean b) = ''boolean''"
| "typeof (JNumber n) = ''number''"
| "typeof (JString s) = ''string''"
| "typeof (JArray xs) = ''object''"
| "typeof (JObject kvs) = ''object''"
| "typeof (JError m) = ''object''"

text \<open>Truthiness, as \<open>if (v)\<close>, \<open>v ? a : b\<close> and \<open>Boolean(v)\<close> decide it.\<close>

fun truthy :: "jsval \<Rightarrow> bool" where
  "truthy JUndefined = False"
| "truthy JNull = False"
| "truthy (JBoolean b) = b"
| "truthy (JNumber n) = (n \<noteq> 0)"
| "truthy (JString s) = (s \<noteq> [])"
| "truthy (JArray xs) = True"
| "truthy (JObject kvs) = True"
| "truthy (JError m) = True"

text \<open>\<open>Array.prototype.join\<close> on strings.\<close>

fun join :: "string \<Rightarrow> string list \<Rightarrow> string" where
  "join sep [] = []"
| "join sep [x] = x"
| "join sep (x # y # ys) = x @ sep @ join sep (y # ys)"

text \<open>Decimal rendering of a natural number and of an integer.\<close>

fun digits :: "nat \<Rightarrow> string" where
  "digits n =
     (if n < 10 then [char_of (48 + n)]
      else digits (n div 10) @ [char_of (48 + n mod 10)])"

declare digits.simps [simp del]

definition show_int :: "int \<Rightarrow> string" where
  "show_int i = (if i < 0 then ''-'' @ digits (nat (- i)) else digits (nat i))"

text \<open>
  String conversion as a template literal \<open>`${v}`\<close> performs it: an array joins its
  elements with a comma (\<open>null\<close> and \<open>undefined\<close> elements give the empty string), a
  plain object gives \<open>[object Object]\<close>, an \<open>Error\<close> gives its name and message.
\<close>

fun to_string :: "jsval \<Rightarrow> string" where
  "to_string JUndefined = ''undefined''"
| "to_string JNull = ''null''"
| "to_string (JBoolean b) = (if b then ''true'' else ''false'')"
| "to_string (JNumber n) = show_int n"
| "to_string (JString s) = s"
| "to_string (JArray xs) =
     join '','' (map (\<lambda>x. if x = JNull \<or> x = JUndefined then [] else to_string x) xs)"
| "to_string (JObject kvs) = ''[object Object]''"
| "to_string (JError m) = (if m = [] then ''Error'' else ''Error: '' @ m)"

text \<open>\<open>String.prototype.toUpperCase\<close> on ASCII text.\<close>

definition upper_char :: "char \<Rightarrow> char" where
  "upper_char c =
     (let n = (of_char c :: nat) in if 97 \<le> n \<and> n \<le> 122 then char_of (n - 32) else c)"

definition toUpperCase :: "string \<Rightarrow> string" where
  "toUpperCase s = map upper_char s"

text \<open>
  \<open>s.replace(p, r)\<close> with a one-character string pattern \<open>p\<close>: only the first
  occurrence is replaced.
\<close>

fun replace :: "char \<Rightarrow> char \<Rightarrow> string \<Rightarrow> string" where
  "replace p r [] = []"
| "replace p r (c # cs) = (if c = p then r # cs else c # replace p r cs)"

section \<open>utils.ts\<close>

text \<open>
  \<open>JSON.stringify(value, null, 2)\<close> of the platform: \<open>None\<close> is the result
  \<open>undefined\<close>. The first argument is the current nesting depth.
\<close>

definition quote_char :: "char \<Rightarrow> string" where
  "quote_char c =
     (let n = (of_char c :: nat) in
      if n = 34 then [char_of (92::nat), char_of (34::nat)]
      else if n = 92 then [char_of (92::nat), char_of (92::nat)]
      else if n = 8 then [char_of (92::nat), CHR ''b'']
      else if n = 9 then [char_of (92::nat), CHR ''t'']
      else if n = 10 then [char_of (92::nat), CHR ''n'']
      else if n = 12 then [char_of (92::nat), CHR ''f'']
      else if n = 13 then [char_of (92::nat), CHR ''r'']
      else if n < 32 then
        [char_of (92::nat), CHR ''u'', CHR ''0'', CHR ''0'',
         ''0123456789abcdef'' ! (n div 16), ''0123456789abcdef'' ! (n mod 16)]
      else [c])"

definition quote :: "string \<Rightarrow> string" where
  "quote s = [char_of (34::nat)] @ concat (map quote_char s) @ [char_of (34::nat)]"

definition indent :: "nat \<Rightarrow> string" where
  "indent lvl = replicate (2 * lvl) CHR '' ''"

definition newline :: string where
  "newline = [char_of (10::nat)]"

fun JSON_stringify_at :: "nat \<Rightarrow> jsval \<Rightarrow> string option" where
  "JSON_stringify_at lvl JUndefined = None"
| "JSON_stringify_at lvl JNull = Some ''null''"
| "JSON_stringify_at lvl (JBoolean b) = Some (if b then ''true'' else ''false'')"
| "JSON_stringify_at lvl (JNumber n) = Some (show_int n)"
| "JSON_stringify_at lvl (JString s) = Some (quote s)"
| "JSON_stringify_at lvl (JArray xs) =
     Some (if xs = [] then ''[]''
           else ''['' @ newline
             @ join ('','' @ newline)
                 (map (\<lambda>x. indent (Suc lvl)
                        @ (case JSON_stringify_at (Suc lvl) x of
                             None \<Rightarrow> ''null'' | Some s \<Rightarrow> s)) xs)
             @ newline @ indent lvl @ '']'')"
| "JSON_stringify_at lvl (JObject kvs) =
     (let props = concat (map (\<lambda>kv.
            case JSON_stringify_at (Suc lvl) (snd kv) of
              None \<Rightarrow> []
            | Some s \<Rightarrow> [indent (Suc lvl) @ quote (fst kv) @ '': '' @ s]) kvs)
      in Some (if props = [] then ''{}''
               else ''{'' @ newline @ join ('','' @ newline) props
                 @ newline @ indent lvl @ ''}''))"
| "JSON_stringify_at lvl (JError m) = Some ''{}''"

text \<open>\<open>stringify = (value) => JSON.stringify(value, null, 2)\<close>\<close>

definition stringify :: "jsval \<Rightarrow> jsval" where
  "stringify v =
     (case JSON_stringify_at 0 v of None \<Rightarrow> JUndefined | Some s \<Rightarrow> JString s)"

text \<open>\<open>isUndefined\<close>\<close>

definition isUndefined :: "jsval \<Rightarrow> bool" where
  "isUndefined v = (typeof v = ''undefined'')"

text \<open>
  \<open>normalizeError\<close>: a string is returned as it is, an \<open>Error\<close> gives its message,
  anything else goes through \<open>stringify\<close>.
\<close>

definition normalizeError :: "jsval \<Rightarrow> jsval" where
  "normalizeError error =
     (if typeof error = ''string'' then error
      else case error of
             JError m \<Rightarrow> JString m
           | _ \<Rightarrow> stringify error)"

section \<open>types.ts: inputs and webhook payloads\<close>

text \<open>
  \<open>TInput\<close>. The user mapping is the object \<open>formatUserMapping\<close> builds from the
  parsed JSON: its values are whatever truthy JSON values the input held (the
  declared type \<open>Record<string, string>\<close> is a cast, not a check).
\<close>

type_synonym user_mapping = "string \<rightharpoonup> jsval"

record TInput =
  githubToken :: string
  botToken :: string
  channelId :: string
  webhookUrl :: string
  userMapping :: user_mapping

text \<open>
  The parts of the webhook payloads the program reads. A field is optional here
  where the program treats it as optional (\<open>?.\<close>, a truthiness test) or where
  \<open>github.context.payload\<close> declares it optional; reading through a missing one
  throws a \<open>TypeError\<close>.
\<close>

record TRepository =
  repo_html_url :: string

record TUser =
  login :: string
  avatar_url :: string

datatype reviewer = User TUser | Team string

record branch =
  ref :: string
  repo :: "TRepository option"

record label =
  label_name :: string

record pull_request =
  pr_number :: nat
  pr_title :: string
  pr_html_url :: string
  pr_head :: branch
  pr_base :: branch
  pr_changed_files :: nat
  pr_user :: "TUser option"
  pr_labels :: "label list"
  pr_requested_reviewers :: "reviewer list option"
  pr_merged :: "bool option"

record review =
  review_html_url :: string
  review_state :: string

text \<open>\<open>issue_pull_request\<close> is the \<open>pull_request\<close> object attached to an issue
  (represented by its URL), \<open>None\<close> when the issue is not a pull request.\<close>

record issue =
  issue_number :: nat
  issue_title :: string
  issue_labels :: "label list"
  issue_pull_request :: "string option"

record issue_comment =
  comment_html_url :: string

text \<open>\<open>changes_body\<close> is the \<open>body\<close> object of a review edit (represented by its
  \<open>from\<close> text), \<open>None\<close> when the edit did not change the body.\<close>

record changes =
  changes_body :: "string option"

record payload =
  action :: "string option"
  number :: "nat option"
  pull_request :: "pull_request option"
  review :: "review option"
  issue :: "issue option"
  comment :: "issue_comment option"
  changes :: "changes option"
  sender :: "TUser option"

text \<open>\<open>github.context\<close>\<close>

record github_context =
  eventName :: string
  payload :: payload
  repo_owner :: string
  repo_repo :: string

section \<open>Slack messages, outbound calls and their responses\<close>

datatype text_object = PlainText string | Mrkdwn string

datatype element = Image "string option" string | MrkdwnElement string

datatype block =
    Header text_object
  | Section text_object
  | Divider
  | Context "element list"

record attachment =
  color :: "string option"
  attachment_blocks :: "block list"

record message_content =
  blocks :: "block list"
  attachments :: "attachment list"

text \<open>The outbound calls of one run, in the order they are made.\<close>

datatype call =
    PullsGet string string string nat
  | ChatPostMessage string string string message_content
  | ReactionsAdd string string "string option" string
  | WebhookSend string string message_content

record response_metadata =
  scopes :: "string list option"

record chat_response =
  ts :: "string option"
  response_metadata :: "response_metadata option"

text \<open>
  What the run cannot decide by itself: the action's inputs (\<open>core.getInput\<close>),
  \<open>JSON.parse\<close> (\<open>None\<close> is a thrown \<open>SyntaxError\<close>), the outcome of each outbound
  call (\<open>Inl e\<close> is a rejection with the value \<open>e\<close>), and the value of
  \<open>Math.floor(Math.random() * 5)\<close>.
\<close>

record world =
  getInput :: "string \<Rightarrow> string"
  JSON_parse :: "string \<Rightarrow> jsval option"
  pulls_get :: "string \<Rightarrow> string \<Rightarrow> string \<Rightarrow> nat \<Rightarrow> jsval + pull_request"
  chat_postMessage :: "string \<Rightarrow> string \<Rightarrow> message_content \<Rightarrow> jsval + chat_response"
  reactions_add :: "string \<Rightarrow> string option \<Rightarrow> string \<Rightarrow> jsval + unit"
  webhook_send :: "string \<Rightarrow> string \<Rightarrow> message_content \<Rightarrow> jsval + unit"
  random_index :: nat

text \<open>The \<open>TypeError\<close> thrown when a property of \<open>undefined\<close> or \<open>null\<close> is read
  (the wording of its message is the engine's).\<close>

definition TypeError :: "string \<Rightarrow> jsval" where
  "TypeError prop =
     JError (''Cannot read properties of undefined (reading '' @ [char_of (39::nat)]
             @ prop @ [char_of (39::nat)] @ '')'')"

section \<open>slack.ts\<close>

definition DEFAULT_TEXT :: string where
  "DEFAULT_TEXT = ''This is a message from a github pull request.''"

definition generateBranchURL :: "TRepository option \<Rightarrow> string \<Rightarrow> string" where
  "generateBranchURL repository name =
     (case repository of None \<Rightarrow> ''undefined'' | Some r \<Rightarrow> repo_html_url r)
     @ ''/tree/'' @ name"

definition generateUser :: "string \<Rightarrow> user_mapping \<Rightarrow> string" where
  "generateUser githubUser mapping =
     (let slackMemberID = (case mapping githubUser of None \<Rightarrow> JUndefined | Some m \<Rightarrow> m)
      in if truthy slackMemberID
         then ''<@'' @ to_string slackMemberID @ ''> ('' @ githubUser @ '')''
         else githubUser)"

definition isUserReviewer :: "reviewer \<Rightarrow> bool" where
  "isUserReviewer reviewer = (case reviewer of User u \<Rightarrow> True | Team t \<Rightarrow> False)"

text \<open>\<open>.filter(Boolean)\<close> drops \<open>null\<close> and the empty string.\<close>

definition getRequestedReviewers :: "reviewer list \<Rightarrow> user_mapping \<Rightarrow> string list" where
  "getRequestedReviewers requestedReviewers mapping =
     concat (map (\<lambda>x. case x of None \<Rightarrow> [] | Some s \<Rightarrow> if s = [] then [] else [s])
       (map (\<lambda>reviewer. case reviewer of
                User u \<Rightarrow> Some (generateUser (login u) mapping)
              | Team t \<Rightarrow> None) requestedReviewers))"

definition getPullRequestDetail ::
  "world \<Rightarrow> string \<Rightarrow> string \<Rightarrow> string \<Rightarrow> nat \<Rightarrow> call list \<times> (jsval + pull_request option)" where
  "getPullRequestDetail w token owner repo' pull_number =
     (if token = [] then ([], Inr None)
      else ([PullsGet token owner repo' pull_number],
            case pulls_get w token owner repo' pull_number of
              Inl e \<Rightarrow> Inl e
            | Inr data \<Rightarrow> Inr (Some data)))"

text \<open>The local variables of \<open>buildMessageContent\<close>; \<open>None\<close> is \<open>undefined\<close>.\<close>

record fields =
  eventStatus :: "string option"
  title :: "string option"
  pullRequestNumber :: "nat option"
  head :: "(string \<times> string) option"
  base :: "(string \<times> string) option"
  changedFiles :: "(string \<times> nat) option"
  createdBy :: "string option"
  fcolor :: "string option"
  message :: "string option"
  messageURL :: "string option"
  labels :: "string list"
  requestedReviewers :: "string list"

definition initial_fields :: fields where
  "initial_fields =
     \<lparr>eventStatus = None, title = None, pullRequestNumber = None, head = None,
      base = None, changedFiles = None, createdBy = None, fcolor = None,
      message = None, messageURL = None, labels = [], requestedReviewers = []\<rparr>"

text \<open>The \<open>case 'pull_request'\<close> branch of the \<open>switch\<close>.\<close>

definition case_pull_request :: "TInput \<Rightarrow> payload \<Rightarrow> jsval + fields" where
  "case_pull_request input pl =
     (case pull_request pl of
        None \<Rightarrow> Inl (TypeError ''head'')
      | Some pr \<Rightarrow>
      (case pr_user pr of
         None \<Rightarrow> Inl (TypeError ''login'')
       | Some u \<Rightarrow>
       (case pr_requested_reviewers pr of
          None \<Rightarrow> Inl (TypeError ''map'')
        | Some reviewers \<Rightarrow>
          (let headBranchName = ref (pr_head pr);
               baseBranchName = ref (pr_base pr);
               f = initial_fields
                 \<lparr>pullRequestNumber := number pl,
                  title := Some (pr_title pr),
                  head := Some (generateBranchURL (repo (pr_head pr)) headBranchName,
                                headBranchName),
                  base := Some (generateBranchURL (repo (pr_base pr)) baseBranchName,
                                baseBranchName),
                  changedFiles := Some (pr_html_url pr @ ''/files'', pr_changed_files pr),
                  createdBy := Some (login u),
                  messageURL := Some (pr_html_url pr),
                  labels := map label_name (pr_labels pr),
                  requestedReviewers := getRequestedReviewers reviewers (userMapping input),
                  eventStatus := action pl\<rparr>
           in if action pl = Some ''opened'' then
                Inr (f\<lparr>fcolor := Some ''#2DA44E'',
                       message := Some ''opened this pull request.''\<rparr>)
              else if action pl = Some ''reopened'' then
                Inr (f\<lparr>fcolor := Some ''#0D4C8C'',
                       message := Some ''reopened this pull request.''\<rparr>)
              else if action pl = Some ''closed'' then
                (if pr_merged pr = Some True then
                   Inr (f\<lparr>eventStatus := Some ''merged'',
                          fcolor := Some ''#8250DF'',
                          message := Some ''merged this pull request.''\<rparr>)
                 else
                   Inr (f\<lparr>fcolor := Some ''#CF222E'',
                          message := Some ''closed this pull request.''\<rparr>))
              else Inr f))))"

text \<open>The \<open>case 'pull_request_review'\<close> branch, with the detail fetch it awaits.\<close>

definition case_pull_request_review ::
  "world \<Rightarrow> TInput \<Rightarrow> github_context \<Rightarrow> call list \<times> (jsval + fields)" where
  "case_pull_request_review w input ctx =
     (let pl = payload ctx in
      case pull_request pl of
        None \<Rightarrow> ([], Inl (TypeError ''head''))
      | Some pr \<Rightarrow>
      (case pr_user pr of
         None \<Rightarrow> ([], Inl (TypeError ''login''))
       | Some u \<Rightarrow>
       (case review pl of
          None \<Rightarrow> ([], Inl (TypeError ''html_url''))
        | Some rv \<Rightarrow>
        (case pr_requested_reviewers pr of
           None \<Rightarrow> ([], Inl (TypeError ''map''))
         | Some reviewers \<Rightarrow>
           (let headBranchName = ref (pr_head pr);
                baseBranchName = ref (pr_base pr);
                f = initial_fields
                  \<lparr>pullRequestNumber := Some (pr_number pr),
                   title := Some (pr_title pr),
                   head := Some (generateBranchURL (repo (pr_head pr)) headBranchName,
                                 headBranchName),
                   base := Some (generateBranchURL (repo (pr_base pr)) baseBranchName,
                                 baseBranchName),
                   createdBy := Some (login u),
                   messageURL := Some (review_html_url rv),
                   labels := map label_name (pr_labels pr),
                   requestedReviewers := getRequestedReviewers reviewers (userMapping input),
                   eventStatus := Some ''review: ''\<rparr>;
                (calls, detail) = getPullRequestDetail w (githubToken input)
                                    (repo_owner ctx) (repo_repo ctx) (pr_number pr)
            in case detail of
                 Inl e \<Rightarrow> (calls, Inl e)
               | Inr pullRequestDetail \<Rightarrow>
                 (let f1 = (case pullRequestDetail of
                              None \<Rightarrow> f
                            | Some d \<Rightarrow>
                                f\<lparr>changedFiles :=
                                    Some (pr_html_url d @ ''/files'', pr_changed_files d)\<rparr>)
                  in (calls, Inr (
                    if action pl = Some ''submitted'' then
                      (let state = review_state rv;
                           f2 = f1\<lparr>eventStatus :=
                                     Some (''review: '' @ replace CHR ''_'' CHR '' '' state)\<rparr>
                       in if state = ''commented'' then
                            f2\<lparr>fcolor := Some ''#BBDFFF'',
                               message := Some ''reviewed this pull request.''\<rparr>
                          else if state = ''approved'' then
                            f2\<lparr>fcolor := Some ''#2DA44E'',
                               message := Some ''approved this pull request.''\<rparr>
                          else if state = ''changes_requested'' then
                            f2\<lparr>fcolor := Some ''#CF222E'',
                               message := Some ''requested changes on this pull request.''\<rparr>
                          else f2)
                    else if action pl = Some ''edited'' then
                      f1\<lparr>eventStatus := Some (''review: '' @ ''updated a comment''),
                         fcolor := Some ''#BBDFFF'',
                         message := Some ''updated a review comment on this pull request.''\<rparr>
                    else if action pl = Some ''dismissed'' then
                      f1\<lparr>eventStatus := Some (''review: '' @ ''dismissed''),
                         fcolor := Some ''#CF222E'',
                         message := Some ''dismissed the review changes on this pull request.''\<rparr>
                    else f1))))))))"

text \<open>The \<open>case 'issue_comment'\<close> branch.\<close>

definition case_issue_comment ::
  "world \<Rightarrow> TInput \<Rightarrow> github_context \<Rightarrow> call list \<times> (jsval + fields)" where
  "case_issue_comment w input ctx =
     (let pl = payload ctx in
      case issue pl of
        None \<Rightarrow> ([], Inl (TypeError ''number''))
      | Some iss \<Rightarrow>
      (case comment pl of
         None \<Rightarrow> ([], Inl (TypeError ''html_url''))
       | Some cm \<Rightarrow>
         (let f = initial_fields
                \<lparr>pullRequestNumber := Some (issue_number iss),
                 title := Some (issue_title iss),
                 messageURL := Some (comment_html_url cm),
                 labels := map label_name (issue_labels iss)\<rparr>;
              (calls, detail) = getPullRequestDetail w (githubToken input)
                                  (repo_owner ctx) (repo_repo ctx) (issue_number iss)
          in case detail of
               Inl e \<Rightarrow> (calls, Inl e)
             | Inr pullRequestDetail \<Rightarrow>
               (let f1 = (case pullRequestDetail of
                            None \<Rightarrow> f
                          | Some d \<Rightarrow>
                            (let headBranchName = ref (pr_head d);
                                 baseBranchName = ref (pr_base d);
                                 g = f\<lparr>head := Some (generateBranchURL (repo (pr_head d))
                                                       headBranchName, headBranchName),
                                       base := Some (generateBranchURL (repo (pr_base d))
                                                       baseBranchName, baseBranchName),
                                       createdBy := map_option login (pr_user d),
                                       changedFiles := Some (pr_html_url d @ ''/files'',
                                                             pr_changed_files d)\<rparr>
                             in case pr_requested_reviewers d of
                                  None \<Rightarrow> g
                                | Some reviewers \<Rightarrow>
                                    g\<lparr>requestedReviewers :=
                                        getRequestedReviewers reviewers (userMapping input)\<rparr>))
                in (calls, Inr (
                  if action pl = Some ''created'' then
                    f1\<lparr>eventStatus := Some ''commented'',
                       fcolor := Some ''#BBDFFF'',
                       message := Some ''commented on this pull request.''\<rparr>
                  else if action pl = Some ''edited'' then
                    f1\<lparr>eventStatus := Some ''updated a comment'',
                       message := Some ''updated a comment on this pull request.'',
                       fcolor := Some ''#BBDFFF''\<rparr>
                  else f1))))))"

text \<open>The whole \<open>switch (eventName)\<close>.\<close>

definition switch_eventName ::
  "world \<Rightarrow> TInput \<Rightarrow> github_context \<Rightarrow> call list \<times> (jsval + fields)" where
  "switch_eventName w input ctx =
     (if eventName ctx = ''pull_request'' then ([], case_pull_request input (payload ctx))
      else if eventName ctx = ''pull_request_review'' then case_pull_request_review w input ctx
      else if eventName ctx = ''issue_comment'' then case_issue_comment w input ctx
      else ([], Inr (initial_fields\<lparr>fcolor := Some ''#DDDDDD''\<rparr>)))"

text \<open>The block list: two fixed blocks, then one \<open>push\<close> per field that is set.\<close>

definition push :: "'a list \<Rightarrow> 'a \<Rightarrow> 'a list" where
  "push xs x = xs @ [x]"

definition header_block :: "fields \<Rightarrow> block" where
  "header_block f =
     Header (PlainText (''PULL REQUEST #''
       @ (case pullRequestNumber f of None \<Rightarrow> ''undefined'' | Some n \<Rightarrow> digits n)
       @ '' - ''
       @ (case eventStatus f of None \<Rightarrow> ''undefined'' | Some s \<Rightarrow> toUpperCase s)))"

definition title_block :: "fields \<Rightarrow> block" where
  "title_block f =
     Section (Mrkdwn ('':small_blue_diamond: *Title:  ''
       @ (case title f of None \<Rightarrow> ''undefined'' | Some t \<Rightarrow> t) @ ''*''))"

definition head_block :: "string \<times> string \<Rightarrow> block" where
  "head_block h =
     Section (Mrkdwn ('':small_blue_diamond: *Head branch:*  <''
       @ join ''|'' [fst h, snd h] @ ''>''))"

definition base_block :: "string \<times> string \<Rightarrow> block" where
  "base_block b =
     Section (Mrkdwn ('':small_blue_diamond: *Base branch:*  <''
       @ join ''|'' [fst b, snd b] @ ''>''))"

definition changedFiles_block :: "string \<times> nat \<Rightarrow> block" where
  "changedFiles_block c =
     Section (Mrkdwn ('':small_blue_diamond: *Files changed:*  <''
       @ join ''|'' [fst c, digits (snd c)] @ ''>''))"

definition labels_block :: "string list \<Rightarrow> block" where
  "labels_block ls =
     Section (Mrkdwn ('':label: *Labels:*  ''
       @ join '' '' (map (\<lambda>label. ''`'' @ label @ ''`'') ls)))"

definition requestedReviewers_block :: "string list \<Rightarrow> block" where
  "requestedReviewers_block rs =
     Section (Mrkdwn ('':technologist: *Requested Reviewers:*  '' @ join '', '' rs))"

definition createdBy_block :: "string \<Rightarrow> user_mapping \<Rightarrow> block" where
  "createdBy_block c mapping =
     Section (Mrkdwn ('':technologist: *Created by:*  '' @ generateUser c mapping))"

definition build_blocks :: "fields \<Rightarrow> user_mapping \<Rightarrow> block list" where
  "build_blocks f mapping =
     (let blocks0 = [header_block f, title_block f];
          blocks1 = (case head f of None \<Rightarrow> blocks0 | Some h \<Rightarrow> push blocks0 (head_block h));
          blocks2 = (case base f of None \<Rightarrow> blocks1 | Some b \<Rightarrow> push blocks1 (base_block b));
          blocks3 = (case changedFiles f of
                       None \<Rightarrow> blocks2
                     | Some c \<Rightarrow> push blocks2 (changedFiles_block c));
          blocks4 = (if length (labels f) > 0
                     then push blocks3 (labels_block (labels f)) else blocks3);
          blocks5 = (if length (requestedReviewers f) > 0
                     then push blocks4 (requestedReviewers_block (requestedReviewers f))
                     else blocks4);
          blocks6 = (case createdBy f of
                       None \<Rightarrow> blocks5
                     | Some c \<Rightarrow> if c = [] then blocks5
                                else push blocks5 (createdBy_block c mapping))
      in push blocks6 Divider)"

text \<open>
  The attachment. \<open>generateUser(sender?.login, userMapping)\<close> inside the template
  literal: with no sender the key looked up and the text printed are both
  \<open>undefined\<close>.
\<close>

definition build_attachment :: "fields \<Rightarrow> TUser option \<Rightarrow> user_mapping \<Rightarrow> attachment" where
  "build_attachment f sender' mapping =
     \<lparr>color = fcolor f,
      attachment_blocks =
        [Context
           [Image (map_option avatar_url sender') ''sender avatar image'',
            MrkdwnElement
              (generateUser (case sender' of None \<Rightarrow> ''undefined'' | Some u \<Rightarrow> login u) mapping
               @ '' '' @ (case message f of None \<Rightarrow> ''do nothing'' | Some m \<Rightarrow> m)),
            MrkdwnElement
              (''<'' @ (case messageURL f of None \<Rightarrow> ''undefined'' | Some u \<Rightarrow> u)
               @ ''|View it on GitHub>'')],
         Context
           [Image (Some ''https://github.githubassets.com/favicon.ico'') ''github favicon'',
            MrkdwnElement
              ''From GitHub Action | Powered By <https://github.com/daint2git|daint2git>'']]\<rparr>"

definition buildMessageContent ::
  "world \<Rightarrow> TInput \<Rightarrow> github_context \<Rightarrow> call list \<times> (jsval + message_content)" where
  "buildMessageContent w input ctx =
     (case switch_eventName w input ctx of
        (calls, Inl e) \<Rightarrow> (calls, Inl e)
      | (calls, Inr f) \<Rightarrow>
          (calls, Inr \<lparr>blocks = build_blocks f (userMapping input),
                       attachments =
                         [build_attachment f (sender (payload ctx)) (userMapping input)]\<rparr>))"

text \<open>\<open>postMessage\<close>: the result is \<open>{ts, metadata_scopes}\<close>.\<close>

definition postMessage ::
  "world \<Rightarrow> TInput \<Rightarrow> github_context
   \<Rightarrow> call list \<times> (jsval + string option \<times> string list option)" where
  "postMessage w input ctx =
     (case buildMessageContent w input ctx of
        (calls, Inl e) \<Rightarrow> (calls, Inl e)
      | (calls, Inr content) \<Rightarrow>
          (calls @ [ChatPostMessage (botToken input) (channelId input) DEFAULT_TEXT content],
           case chat_postMessage w (channelId input) DEFAULT_TEXT content of
             Inl e \<Rightarrow> Inl e
           | Inr response \<Rightarrow>
               Inr (ts response,
                    case response_metadata response of
                      None \<Rightarrow> None
                    | Some m \<Rightarrow> scopes m)))"

definition icons :: "string list" where
  "icons = [''heart'', ''heart_eyes'', ''smiling_face_with_3_hearts'', ''medal'', ''100'']"

definition addReaction :: "world \<Rightarrow> TInput \<Rightarrow> string \<Rightarrow> call list \<times> (jsval + unit)" where
  "addReaction w input timestamp =
     (let iconName = (if random_index w < length icons
                      then Some (icons ! random_index w) else None)
      in ([ReactionsAdd (botToken input) (channelId input) iconName timestamp],
          reactions_add w (channelId input) iconName timestamp))"

definition postMessageWithWebhook ::
  "world \<Rightarrow> TInput \<Rightarrow> github_context \<Rightarrow> call list \<times> (jsval + unit)" where
  "postMessageWithWebhook w input ctx =
     (case buildMessageContent w input ctx of
        (calls, Inl e) \<Rightarrow> (calls, Inl e)
      | (calls, Inr content) \<Rightarrow>
          (calls @ [WebhookSend (webhookUrl input) DEFAULT_TEXT content],
           webhook_send w (webhookUrl input) DEFAULT_TEXT content))"

section \<open>index.ts\<close>

text \<open>
  The own enumerable properties of a parsed JSON value, in the order
  \<open>Object.keys\<close> lists them; \<open>None\<close> where \<open>Object.keys\<close> throws (\<open>null\<close>,
  \<open>undefined\<close>). A string and an array have their indices as keys.
\<close>

fun own_properties :: "jsval \<Rightarrow> (string \<times> jsval) list option" where
  "own_properties JUndefined = None"
| "own_properties JNull = None"
| "own_properties (JBoolean b) = Some []"
| "own_properties (JNumber n) = Some []"
| "own_properties (JString s) =
     Some (zip (map digits [0..<length s]) (map (\<lambda>c. JString [c]) s))"
| "own_properties (JArray xs) = Some (zip (map digits [0..<length xs]) xs)"
| "own_properties (JObject kvs) = Some kvs"
| "own_properties (JError m) = Some []"

definition Object_keys :: "jsval \<Rightarrow> string list option" where
  "Object_keys v = map_option (map fst) (own_properties v)"

text \<open>\<open>data[k]\<close> for an own key \<open>k\<close>; \<open>undefined\<close> when there is none.\<close>

definition get_property :: "jsval \<Rightarrow> string \<Rightarrow> jsval" where
  "get_property data k =
     (case own_properties data of
        None \<Rightarrow> JUndefined
      | Some kvs \<Rightarrow> (case map_of kvs k of None \<Rightarrow> JUndefined | Some v \<Rightarrow> v))"

text \<open>
  \<open>formatUserMapping\<close>: whatever the \<open>try\<close> block throws (the \<open>SyntaxError\<close> of
  \<open>JSON.parse\<close>, the \<open>TypeError\<close> of \<open>Object.keys(null)\<close>) is replaced by one
  \<open>Error\<close>.
\<close>

definition formatUserMapping :: "world \<Rightarrow> string \<Rightarrow> jsval + user_mapping" where
  "formatUserMapping w mapping =
     (case JSON_parse w mapping of
        None \<Rightarrow> Inl (JError ''Input \"user-mapping\" must be a json string.'')
      | Some data \<Rightarrow>
        (case Object_keys data of
           None \<Rightarrow> Inl (JError ''Input \"user-mapping\" must be a json string.'')
         | Some keys \<Rightarrow>
             Inr (foldl (\<lambda>r k. let v = get_property data k
                                in if truthy v then r(k \<mapsto> v) else r)
                        Map.empty keys)))"

text \<open>\<open>parseInput\<close>: an empty \<open>user-mapping\<close> input stands for \<open>{}\<close>.\<close>

definition parseInput :: "world \<Rightarrow> jsval + TInput" where
  "parseInput w =
     (let githubToken' = getInput w ''github-token'';
          botToken' = getInput w ''slack-bot-token'';
          channelId' = getInput w ''slack-channel-id'';
          webhookUrl' = getInput w ''slack-webhook-url''
      in case formatUserMapping w
                (if getInput w ''user-mapping'' = [] then ''{}''
                 else getInput w ''user-mapping'') of
           Inl e \<Rightarrow> Inl e
         | Inr userMapping' \<Rightarrow>
             Inr \<lparr>githubToken = githubToken', botToken = botToken',
                  channelId = channelId', webhookUrl = webhookUrl',
                  userMapping = userMapping'\<rparr>)"

text \<open>
  \<open>isValidEvent\<close>. Reading \<open>issue.pull_request\<close> of a payload with no \<open>issue\<close>
  throws.
\<close>

definition isValidEvent :: "github_context \<Rightarrow> jsval + bool" where
  "isValidEvent ctx =
     (case action (payload ctx) of
        None \<Rightarrow> Inr False
      | Some a \<Rightarrow>
          if a = [] then Inr False
          else if eventName ctx = ''pull_request'' then
            Inr (a \<in> set [''opened'', ''reopened'', ''closed''])
          else if eventName ctx = ''pull_request_review'' then
            (if a \<notin> set [''submitted'', ''edited'', ''dismissed''] then Inr False
             else if a = ''edited''
                     \<and> (case changes (payload ctx) of
                           None \<Rightarrow> True
                         | Some c \<Rightarrow> changes_body c = None)
             then Inr False
             else Inr True)
          else if eventName ctx = ''issue_comment'' then
            (if a \<notin> set [''created'', ''edited''] then Inr False
             else case issue (payload ctx) of
                    None \<Rightarrow> Inl (TypeError ''pull_request'')
                  | Some i \<Rightarrow> if issue_pull_request i \<noteq> None then Inr True else Inr False)
          else Inr False)"

text \<open>The body of the \<open>try\<close> block of \<open>run\<close>.\<close>

definition run_try :: "world \<Rightarrow> github_context \<Rightarrow> call list \<times> (jsval + unit)" where
  "run_try w ctx =
     (case parseInput w of
        Inl e \<Rightarrow> ([], Inl e)
      | Inr input \<Rightarrow>
          if length (botToken input) = 0 \<and> length (webhookUrl input) = 0 then
            ([], Inl (JError
              ''Need to provide at least one input \"slack-bot-token\" or \"slack-webhook-url\".''))
          else if length (botToken input) > 0 then
            (if length (channelId input) = 0 then
               ([], Inl (JError
                 ''Input \"slack-channel-id\" is required to run this action. An empty one has been provided.''))
             else
               (case postMessage w input ctx of
                  (calls, Inl e) \<Rightarrow> (calls, Inl e)
                | (calls, Inr (response_ts, metadata_scopes)) \<Rightarrow>
                    (case response_ts of
                       None \<Rightarrow> (calls, Inr ())
                     | Some t \<Rightarrow>
                         if t \<noteq> []
                            \<and> (case metadata_scopes of
                                  None \<Rightarrow> False
                                | Some ss \<Rightarrow> ''reactions:write'' \<in> set ss)
                         then (case addReaction w input t of
                                 (calls', r) \<Rightarrow> (calls @ calls', r))
                         else (calls, Inr ()))))
          else if length (webhookUrl input) > 0 then
            postMessageWithWebhook w input ctx
          else ([], Inr ()))"

text \<open>
  How a run ends: skipped on a rejected event, completed, failed through
  \<open>core.setFailed\<close> with the given value, or rejected by an error thrown outside
  the \<open>try\<close> block.
\<close>

datatype outcome = Skipped | Completed | Failed jsval | Rejected jsval

definition run :: "world \<Rightarrow> github_context \<Rightarrow> call list \<times> outcome" where
  "run w ctx =
     (case isValidEvent ctx of
        Inl e \<Rightarrow> ([], Rejected e)
      | Inr valid \<Rightarrow>
          if \<not> valid then ([], Skipped)
          else (case run_try w ctx of
                  (calls, Inl error) \<Rightarrow> (calls, Failed (normalizeError error))
                | (calls, Inr u) \<Rightarrow> (calls, Completed)))"

text \<open>Kinds of outbound calls.\<close>

fun is_pulls_get :: "call \<Rightarrow> bool" where
  "is_pulls_get (PullsGet token owner r n) = True"
| "is_pulls_get c = False"

fun is_reaction :: "call \<Rightarrow> bool" where
  "is_reaction (ReactionsAdd token channel name timestamp) = True"
| "is_reaction c = False"

text \<open>The two error messages of the credential checks, and the one of the mapping.\<close>

definition need_one_message :: string where
  "need_one_message =
     ''Need to provide at least one input \"slack-bot-token\" or \"slack-webhook-url\".''"

definition channel_required_message :: string where
  "channel_required_message =
     ''Input \"slack-channel-id\" is required to run this action. An empty one has been provided.''"

definition mapping_message :: string where
  "mapping_message = ''Input \"user-mapping\" must be a json string.''"

section \<open>What a message shows, and the classifier as the specification words it\<close>

text \<open>The text of the header block, the accent colour of the attachment, and the
  text that names the acting user and what they did.\<close>

definition header_text :: "message_content \<Rightarrow> string option" where
  "header_text c =
     (case blocks c of Header (PlainText t) # rest \<Rightarrow> Some t | _ \<Rightarrow> None)"

definition accent :: "message_content \<Rightarrow> string option" where
  "accent c = (case attachments c of [a] \<Rightarrow> color a | _ \<Rightarrow> None)"

definition actor_text :: "message_content \<Rightarrow> string option" where
  "actor_text c =
     (case attachments c of
        [a] \<Rightarrow> (case attachment_blocks a of
                 Context (img # MrkdwnElement t # rest) # others \<Rightarrow> Some t
               | _ \<Rightarrow> None)
      | _ \<Rightarrow> None)"

text \<open>
  A message shows a status label, an accent colour and a verb phrase: the builder's
  variables hold them, the header carries the label in upper case after the
  pull request number, the attachment has the colour, and its text is the acting
  user followed by the verb phrase.
\<close>

definition presents ::
  "TInput \<Rightarrow> github_context \<Rightarrow> fields \<Rightarrow> message_content \<Rightarrow> string \<Rightarrow> string \<Rightarrow> string \<Rightarrow> bool" where
  "presents input ctx f c status col verb =
     (eventStatus f = Some status \<and> fcolor f = Some col \<and> message f = Some verb
      \<and> header_text c =
            Some (''PULL REQUEST #''
                  @ (case pullRequestNumber f of None \<Rightarrow> ''undefined'' | Some n \<Rightarrow> digits n)
                  @ '' - '' @ toUpperCase status)
      \<and> accent c = Some col
      \<and> actor_text c =
            Some (generateUser (case sender (payload ctx) of
                                  None \<Rightarrow> ''undefined'' | Some u \<Rightarrow> login u)
                    (userMapping input)
                  @ '' '' @ verb))"

text \<open>The event and action combinations the specification lists as accepted.\<close>

definition accepted_combination :: "github_context \<Rightarrow> bool" where
  "accepted_combination ctx =
     (case action (payload ctx) of
        None \<Rightarrow> False
      | Some a \<Rightarrow>
          (eventName ctx = ''pull_request''
             \<and> (a = ''opened'' \<or> a = ''reopened'' \<or> a = ''closed''))
          \<or> (eventName ctx = ''pull_request_review''
             \<and> (a = ''submitted'' \<or> a = ''dismissed''
                 \<or> (a = ''edited''
                     \<and> (case changes (payload ctx) of
                           None \<Rightarrow> False
                         | Some c \<Rightarrow> changes_body c \<noteq> None))))
          \<or> (eventName ctx = ''issue_comment''
             \<and> (a = ''created'' \<or> a = ''edited'')
             \<and> (case issue (payload ctx) of
                   None \<Rightarrow> False
                 | Some i \<Rightarrow> issue_pull_request i \<noteq> None)))"

text \<open>The entries of a parsed object whose values are truthy, as a mapping.\<close>

definition truthy_entries :: "(string \<times> jsval) list \<Rightarrow> user_mapping" where
  "truthy_entries kvs k =
     (case map_of kvs k of None \<Rightarrow> None | Some v \<Rightarrow> if truthy v then Some v else None)"

text \<open>\<open>underscores replaced by spaces\<close>, every one of them.\<close>

definition underscores_to_spaces :: "string \<Rightarrow> string" where
  "underscores_to_spaces s = map (\<lambda>c. if c = CHR ''_'' then CHR '' '' else c) s"

section \<open>Sample events\<close>

text \<open>
  The scenario of the specification: pull request 7, ``Add feature X'', from
  \<open>feature-x\<close> into \<open>main\<close>, 3 changed files, label \<open>bug\<close>, author \<open>alice\<close>
  (mapped to \<open>U123\<close>), sender \<open>bob\<close> (not mapped).
\<close>

definition sample_repository :: TRepository where
  "sample_repository = \<lparr>repo_html_url = ''https://github.com/o/r''\<rparr>"

definition sample_pull_request :: pull_request where
  "sample_pull_request =
     \<lparr>pr_number = 7, pr_title = ''Add feature X'',
      pr_html_url = ''https://github.com/o/r/pull/7'',
      pr_head = \<lparr>ref = ''feature-x'', repo = Some sample_repository\<rparr>,
      pr_base = \<lparr>ref = ''main'', repo = Some sample_repository\<rparr>,
      pr_changed_files = 3,
      pr_user = Some \<lparr>login = ''alice'', avatar_url = ''https://a/alice.png''\<rparr>,
      pr_labels = [\<lparr>label_name = ''bug''\<rparr>],
      pr_requested_reviewers = Some [],
      pr_merged = Some False\<rparr>"

definition sample_payload :: payload where
  "sample_payload =
     \<lparr>action = Some ''opened'', number = Some 7,
      pull_request = Some sample_pull_request, review = None, issue = None,
      comment = None, changes = None,
      sender = Some \<lparr>login = ''bob'', avatar_url = ''https://a/bob.png''\<rparr>\<rparr>"

definition sample_context :: github_context where
  "sample_context =
     \<lparr>eventName = ''pull_request'', payload = sample_payload,
      repo_owner = ''o'', repo_repo = ''r''\<rparr>"

text \<open>A review of the same pull request that requests changes.\<close>

definition sample_review_context :: github_context where
  "sample_review_context =
     \<lparr>eventName = ''pull_request_review'',
      payload = sample_payload
        \<lparr>action := Some ''submitted'', number := None,
         review := Some \<lparr>review_html_url = ''https://github.com/o/r/pull/7#r1'',
                         review_state = ''changes_requested''\<rparr>\<rparr>,
      repo_owner = ''o'', repo_repo = ''r''\<rparr>"

text \<open>An event the action does not support.\<close>

definition sample_push_context :: github_context where
  "sample_push_context =
     \<lparr>eventName = ''push'',
      payload = \<lparr>action = None, number = None, pull_request = None, review = None,
                 issue = None, comment = None, changes = None, sender = None\<rparr>,
      repo_owner = ''o'', repo_repo = ''r''\<rparr>"

text \<open>
  A world with the given inputs: \<open>JSON.parse\<close> knows the three texts used below,
  Slack answers every post with the given response, and every other call succeeds.
\<close>

definition sample_parse :: "string \<Rightarrow> jsval option" where
  "sample_parse s =
     (if s = ''{}'' then Some (JObject [])
      else if s = ''{\"alice\":\"U123\"}'' then Some (JObject [(''alice'', JString ''U123'')])
      else if s = ''{\"a\":\"X\",\"b\":\"\"}''
        then Some (JObject [(''a'', JString ''X''), (''b'', JString '''')])
      else None)"

definition sample_world :: "(string \<Rightarrow> string) \<Rightarrow> chat_response \<Rightarrow> world" where
  "sample_world inputs response =
     \<lparr>getInput = inputs, JSON_parse = sample_parse,
      pulls_get = (\<lambda>token owner repo' n. Inr sample_pull_request),
      chat_postMessage = (\<lambda>channel text content. Inr response),
      reactions_add = (\<lambda>channel name timestamp. Inr ()),
      webhook_send = (\<lambda>url text content. Inr ()),
      random_index = 3\<rparr>"

definition no_inputs :: "string \<Rightarrow> string" where
  "no_inputs name = []"

definition webhook_inputs :: "string \<Rightarrow> string" where
  "webhook_inputs name =
     (if name = ''slack-webhook-url'' then ''https://hooks.slack.com/services/T/B/X''
      else if name = ''user-mapping'' then ''{\"alice\":\"U123\"}''
      else [])"

definition bot_inputs :: "string \<Rightarrow> string" where
  "bot_inputs name =
     (if name = ''slack-bot-token'' then ''xoxb-1''
      else if name = ''slack-channel-id'' then ''C1''
      else if name = ''user-mapping'' then ''{\"alice\":\"U123\"}''
      else [])"

definition bad_mapping_inputs :: "string \<Rightarrow> string" where
  "bad_mapping_inputs name =
     (if name = ''slack-webhook-url'' then ''https://hooks.slack.com/services/T/B/X''
      else if name = ''user-mapping'' then ''not json''
      else [])"

definition full_response :: chat_response where
  "full_response =
     \<lparr>ts = Some ''1700000000.000100'',
      response_metadata = Some \<lparr>scopes = Some [''chat:write'', ''reactions:write'']\<rparr>\<rparr>"

text \<open>The action's inputs of the webhook scenario, parsed.\<close>

definition sample_input :: TInput where
  "sample_input =
     \<lparr>githubToken = [], botToken = [], channelId = [],
      webhookUrl = ''https://hooks.slack.com/services/T/B/X'',
      userMapping = [''alice'' \<mapsto> JString ''U123'']\<rparr>"

text \<open>A \<open>pull_request\<close> event with an action the classifier rejects.\<close>

definition sample_synchronize_context :: github_context where
  "sample_synchronize_context =
     \<lparr>eventName = ''pull_request'',
      payload = sample_payload\<lparr>action := Some ''synchronize''\<rparr>,
      repo_owner = ''o'', repo_repo = ''r''\<rparr>"

text \<open>A response with a timestamp whose scopes lack \<open>reactions:write\<close>.\<close>

definition no_scope_response :: chat_response where
  "no_scope_response =
     \<lparr>ts = Some ''1700000000.000100'',
      response_metadata = Some \<lparr>scopes = Some [''chat:write'']\<rparr>\<rparr>"

text \<open>Inputs with a bot token and no channel id.\<close>

definition bot_only_inputs :: "string \<Rightarrow> string" where
  "bot_only_inputs name = (if name = ''slack-bot-token'' then ''xoxb-1'' else [])"

section \<open>Properties of utils.ts\<close>






section \<open>Properties of the user mapping\<close>



lemma foldl_truthy_entries:
  "foldl (\<lambda>r k. let v = g k in if truthy v then r(k \<mapsto> v) else r) r0 ks
   = (\<lambda>k. if k \<in> set ks \<and> truthy (g k) then Some (g k) else r0 k)"
  by (induction ks arbitrary: r0) (auto simp: Let_def fun_eq_iff)

lemma map_of_Some_key: "map_of kvs x = Some y \<Longrightarrow> x \<in> fst ` set kvs"
  by (metis domI dom_map_of_conv_image_fst)

lemma formatUserMapping_object:
  assumes "JSON_parse w s = Some (JObject kvs)"
  shows "formatUserMapping w s = Inr (truthy_entries kvs)"
proof -
  have "foldl (\<lambda>r k. let v = get_property (JObject kvs) k
                      in if truthy v then r(k \<mapsto> v) else r) Map.empty (map fst kvs)
        = truthy_entries kvs"
    unfolding foldl_truthy_entries
    by (auto simp: fun_eq_iff truthy_entries_def get_property_def map_of_eq_None_iff
             split: option.splits dest: map_of_Some_key)
  with assms show ?thesis by (simp add: formatUserMapping_def Object_keys_def)
qed

lemma sample_truthy_entries:
  "truthy_entries [(''a'', JString ''X''), (''b'', JString '''')] = [''a'' \<mapsto> JString ''X'']"
  by (auto simp: truthy_entries_def fun_eq_iff)

text \<open>
  C6: when the input parses as a JSON object, \<open>formatUserMapping\<close> returns the
  mapping that holds exactly the entries of the object whose values are truthy; when
  the input is not valid JSON, it throws the \<open>Error\<close> that says the input must be a
  JSON string.
\<close>

theorem formatUserMapping_spec:
  "(JSON_parse w s = Some (JObject kvs)
      \<longrightarrow> (\<exists>m. formatUserMapping w s = Inr m \<and> m = truthy_entries kvs
               \<and> (\<forall>k v. m k = Some v \<longleftrightarrow> map_of kvs k = Some v \<and> truthy v)))
   \<and> (JSON_parse w s = None
      \<longrightarrow> formatUserMapping w s
            = Inl (JError ''Input \"user-mapping\" must be a json string.''))"
  using formatUserMapping_object [of w s kvs]
  by (auto simp: formatUserMapping_def truthy_entries_def split: option.splits)

theorem formatUserMapping_spec_witness:
  "formatUserMapping (sample_world no_inputs full_response) ''{\"a\":\"X\",\"b\":\"\"}''
     = Inr [''a'' \<mapsto> JString ''X'']
   \<and> formatUserMapping (sample_world no_inputs full_response) ''not json''
     = Inl (JError ''Input \"user-mapping\" must be a json string.'')"
proof -
  let ?w = "sample_world no_inputs full_response"
  have a: "JSON_parse ?w ''{\"a\":\"X\",\"b\":\"\"}''
           = Some (JObject [(''a'', JString ''X''), (''b'', JString '''')])"
    by (simp add: sample_world_def sample_parse_def)
  have b: "JSON_parse ?w ''not json'' = None"
    by (simp add: sample_world_def sample_parse_def)
  from formatUserMapping_spec
         [of ?w "''{\"a\":\"X\",\"b\":\"\"}''" "[(''a'', JString ''X''), (''b'', JString '''')]"] a
  have 1: "formatUserMapping ?w ''{\"a\":\"X\",\"b\":\"\"}''
           = Inr (truthy_entries [(''a'', JString ''X''), (''b'', JString '''')])"
    by blast
  from formatUserMapping_spec [of ?w "''not json''"] b
  have 2: "formatUserMapping ?w ''not json''
           = Inl (JError ''Input \"user-mapping\" must be a json string.'')"
    by blast
  from 1 2 show ?thesis by (simp only: sample_truthy_entries)
qed

section \<open>Properties of the event classifier\<close>

text \<open>
  C2: \<open>isValidEvent\<close> accepts exactly the combinations the specification lists
  (\<open>pull_request\<close> with opened, reopened or closed; \<open>pull_request_review\<close> with
  submitted, dismissed, or edited with a body change; \<open>issue_comment\<close> with created
  or edited on an issue that carries a pull request), and rejects every other event,
  in particular every payload with no action. (An \<open>issue_comment\<close> payload always
  has its \<open>issue\<close>.)
\<close>

theorem isValidEvent_accepts:
  "(isValidEvent ctx = Inr True \<longleftrightarrow> accepted_combination ctx)
   \<and> (\<not> (eventName ctx = ''issue_comment'' \<and> issue (payload ctx) = None)
        \<longrightarrow> isValidEvent ctx = Inr (accepted_combination ctx))
   \<and> (action (payload ctx) = None \<longrightarrow> isValidEvent ctx = Inr False)"
  by (auto simp: isValidEvent_def accepted_combination_def split: option.splits)

theorem isValidEvent_accepts_witness:
  "isValidEvent sample_context = Inr True
   \<and> isValidEvent sample_review_context = Inr True
   \<and> isValidEvent sample_push_context = Inr False"
proof -
  have a: "accepted_combination sample_context"
    by (simp add: accepted_combination_def sample_context_def sample_payload_def)
  have b: "accepted_combination sample_review_context"
    by (simp add: accepted_combination_def sample_review_context_def sample_payload_def)
  have c: "action (payload sample_push_context) = None"
    by (simp add: sample_push_context_def)
  from isValidEvent_accepts [of sample_context] a
  have 1: "isValidEvent sample_context = Inr True" by blast
  from isValidEvent_accepts [of sample_review_context] b
  have 2: "isValidEvent sample_review_context = Inr True" by blast
  from isValidEvent_accepts [of sample_push_context] c
  have 3: "isValidEvent sample_push_context = Inr False" by blast
  from 1 2 3 show ?thesis by blast
qed

section \<open>Properties of the message builder\<close>

lemma build_blocks_eq:
  "build_blocks f mapping =
     [header_block f, title_block f]
     @ (case head f of None \<Rightarrow> [] | Some h \<Rightarrow> [head_block h])
     @ (case base f of None \<Rightarrow> [] | Some b \<Rightarrow> [base_block b])
     @ (case changedFiles f of None \<Rightarrow> [] | Some c \<Rightarrow> [changedFiles_block c])
     @ (if labels f \<noteq> [] then [labels_block (labels f)] else [])
     @ (if requestedReviewers f \<noteq> [] then [requestedReviewers_block (requestedReviewers f)] else [])
     @ (case createdBy f of None \<Rightarrow> [] | Some c \<Rightarrow> if c = [] then [] else [createdBy_block c mapping])
     @ [Divider]"
  by (simp add: build_blocks_def push_def Let_def split: option.splits)

lemma buildMessageContent_ok:
  "switch_eventName w input ctx = (calls, Inr f) \<Longrightarrow>
   buildMessageContent w input ctx =
     (calls, Inr \<lparr>blocks = build_blocks f (userMapping input),
                  attachments = [build_attachment f (sender (payload ctx)) (userMapping input)]\<rparr>)"
  by (simp add: buildMessageContent_def)

lemma presents_built:
  assumes "eventStatus f = Some status" "fcolor f = Some col" "message f = Some verb"
  shows "presents input ctx f
           \<lparr>blocks = build_blocks f (userMapping input),
            attachments = [build_attachment f (sender (payload ctx)) (userMapping input)]\<rparr>
           status col verb"
  using assms
  by (simp add: presents_def header_text_def accent_def actor_text_def build_blocks_eq
        header_block_def build_attachment_def)

lemma case_pull_request_fields:
  assumes "pull_request pl = Some pr" "pr_user pr = Some u" "pr_requested_reviewers pr = Some rs"
  shows "action pl = Some ''opened'' \<Longrightarrow>
           \<exists>f. case_pull_request input pl = Inr f \<and> eventStatus f = Some ''opened''
               \<and> fcolor f = Some ''#2DA44E'' \<and> message f = Some ''opened this pull request.''"
    and "action pl = Some ''reopened'' \<Longrightarrow>
           \<exists>f. case_pull_request input pl = Inr f \<and> eventStatus f = Some ''reopened''
               \<and> fcolor f = Some ''#0D4C8C'' \<and> message f = Some ''reopened this pull request.''"
    and "action pl = Some ''closed'' \<Longrightarrow> pr_merged pr = Some True \<Longrightarrow>
           \<exists>f. case_pull_request input pl = Inr f \<and> eventStatus f = Some ''merged''
               \<and> fcolor f = Some ''#8250DF'' \<and> message f = Some ''merged this pull request.''"
    and "action pl = Some ''closed'' \<Longrightarrow> pr_merged pr \<noteq> Some True \<Longrightarrow>
           \<exists>f. case_pull_request input pl = Inr f \<and> eventStatus f = Some ''closed''
               \<and> fcolor f = Some ''#CF222E'' \<and> message f = Some ''closed this pull request.''"
  using assms by (simp_all add: case_pull_request_def Let_def)

lemma pull_request_actions:
  assumes "eventName ctx = ''pull_request''" "isValidEvent ctx = Inr True"
  shows "action (payload ctx) = Some ''opened'' \<or> action (payload ctx) = Some ''reopened''
         \<or> action (payload ctx) = Some ''closed''"
  using assms by (auto simp: isValidEvent_def split: option.splits if_splits)

lemma presents_switch:
  assumes "switch_eventName w input ctx = (calls, Inr f)"
    "eventStatus f = Some status" "fcolor f = Some col" "message f = Some verb"
  shows "\<exists>c. buildMessageContent w input ctx = (calls, Inr c) \<and> presents input ctx f c status col verb"
  using buildMessageContent_ok[OF assms(1)] presents_built[OF assms(2,3,4)] by blast

text \<open>
  C1: for every \<open>pull_request\<close> event the classifier accepts, \<open>buildMessageContent\<close>
  returns a message that shows the status label, accent colour and verb phrase of the
  table: opened, \<open>#2DA44E\<close>, ``opened this pull request.''; reopened, \<open>#0D4C8C\<close>,
  ``reopened this pull request.''; closed and merged: merged, \<open>#8250DF\<close>, ``merged
  this pull request.''; closed and not merged: closed, \<open>#CF222E\<close>, ``closed this pull
  request.''. (The payload of a \<open>pull_request\<close> event has its pull request, with its
  author and its list of requested reviewers.)
\<close>

theorem pull_request_table:
  assumes ev: "eventName ctx = ''pull_request''"
    and valid: "isValidEvent ctx = Inr True"
    and pr: "pull_request (payload ctx) = Some pr" "pr_user pr = Some u"
            "pr_requested_reviewers pr = Some rs"
  shows "\<exists>f c. switch_eventName w input ctx = ([], Inr f)
           \<and> buildMessageContent w input ctx = ([], Inr c)
           \<and> (action (payload ctx) = Some ''opened''
                \<longrightarrow> presents input ctx f c ''opened'' ''#2DA44E'' ''opened this pull request.'')
           \<and> (action (payload ctx) = Some ''reopened''
                \<longrightarrow> presents input ctx f c ''reopened'' ''#0D4C8C'' ''reopened this pull request.'')
           \<and> (action (payload ctx) = Some ''closed'' \<and> pr_merged pr = Some True
                \<longrightarrow> presents input ctx f c ''merged'' ''#8250DF'' ''merged this pull request.'')
           \<and> (action (payload ctx) = Some ''closed'' \<and> pr_merged pr \<noteq> Some True
                \<longrightarrow> presents input ctx f c ''closed'' ''#CF222E'' ''closed this pull request.'')
           \<and> (action (payload ctx) = Some ''opened'' \<or> action (payload ctx) = Some ''reopened''
                \<or> action (payload ctx) = Some ''closed'')"
proof -
  let ?a = "action (payload ctx)"
  have sw: "switch_eventName w input ctx = ([], case_pull_request input (payload ctx))"
    using ev by (simp add: switch_eventName_def)
  note act = pull_request_actions[OF ev valid]
  note flds = case_pull_request_fields[OF pr, of input]
  consider (o) "?a = Some ''opened''" | (r) "?a = Some ''reopened''"
    | (m) "?a = Some ''closed''" "pr_merged pr = Some True"
    | (c) "?a = Some ''closed''" "pr_merged pr \<noteq> Some True"
    using act by blast
  then show ?thesis
  proof cases
    case o
    from flds(1)[OF o] obtain f where f: "case_pull_request input (payload ctx) = Inr f"
      "eventStatus f = Some ''opened''" "fcolor f = Some ''#2DA44E''"
      "message f = Some ''opened this pull request.''" by blast
    from presents_switch[of w input ctx "[]" f, OF _ f(2,3,4)] sw f(1)
    obtain c where "buildMessageContent w input ctx = ([], Inr c)"
      "presents input ctx f c ''opened'' ''#2DA44E'' ''opened this pull request.''" by auto
    with sw f(1) o show ?thesis by auto
  next
    case r
    from flds(2)[OF r] obtain f where f: "case_pull_request input (payload ctx) = Inr f"
      "eventStatus f = Some ''reopened''" "fcolor f = Some ''#0D4C8C''"
      "message f = Some ''reopened this pull request.''" by blast
    from presents_switch[of w input ctx "[]" f, OF _ f(2,3,4)] sw f(1)
    obtain c where "buildMessageContent w input ctx = ([], Inr c)"
      "presents input ctx f c ''reopened'' ''#0D4C8C'' ''reopened this pull request.''" by auto
    with sw f(1) r show ?thesis by auto
  next
    case m
    from flds(3)[OF m] obtain f where f: "case_pull_request input (payload ctx) = Inr f"
      "eventStatus f = Some ''merged''" "fcolor f = Some ''#8250DF''"
      "message f = Some ''merged this pull request.''" by blast
    from presents_switch[of w input ctx "[]" f, OF _ f(2,3,4)] sw f(1)
    obtain c where "buildMessageContent w input ctx = ([], Inr c)"
      "presents input ctx f c ''merged'' ''#8250DF'' ''merged this pull request.''" by auto
    with sw f(1) m show ?thesis by auto
  next
    case c
    from flds(4)[OF c] obtain f where f: "case_pull_request input (payload ctx) = Inr f"
      "eventStatus f = Some ''closed''" "fcolor f = Some ''#CF222E''"
      "message f = Some ''closed this pull request.''" by blast
    from presents_switch[of w input ctx "[]" f, OF _ f(2,3,4)] sw f(1)
    obtain c' where "buildMessageContent w input ctx = ([], Inr c')"
      "presents input ctx f c' ''closed'' ''#CF222E'' ''closed this pull request.''" by auto
    with sw f(1) c show ?thesis by auto
  qed
qed


theorem pull_request_table_witness:
  "\<exists>c. buildMessageContent (sample_world webhook_inputs full_response) sample_input sample_context
          = ([], Inr c)
       \<and> header_text c = Some ''PULL REQUEST #7 - OPENED''
       \<and> accent c = Some ''#2DA44E''
       \<and> actor_text c = Some ''bob opened this pull request.''"
proof -
  let ?w = "sample_world webhook_inputs full_response"
  have ev: "eventName sample_context = ''pull_request''" by (simp add: sample_context_def)
  have valid: "isValidEvent sample_context = Inr True"
    by (simp add: isValidEvent_def sample_context_def sample_payload_def)
  have pr: "pull_request (payload sample_context) = Some sample_pull_request"
    "pr_user sample_pull_request = Some \<lparr>login = ''alice'', avatar_url = ''https://a/alice.png''\<rparr>"
    "pr_requested_reviewers sample_pull_request = Some []"
    by (simp_all add: sample_context_def sample_payload_def sample_pull_request_def)
  have act: "action (payload sample_context) = Some ''opened''"
    by (simp add: sample_context_def sample_payload_def)
  have num: "number (payload sample_context) = Some 7"
    by (simp add: sample_context_def sample_payload_def)
  have snd: "sender (payload sample_context) = Some \<lparr>login = ''bob'', avatar_url = ''https://a/bob.png''\<rparr>"
    by (simp add: sample_context_def sample_payload_def)
  from pull_request_table [OF ev valid pr, of ?w sample_input] act
  obtain f c where sw: "switch_eventName ?w sample_input sample_context = ([], Inr f)"
    and b: "buildMessageContent ?w sample_input sample_context = ([], Inr c)"
    and p: "presents sample_input sample_context f c ''opened'' ''#2DA44E'' ''opened this pull request.''"
    by blast
  from sw ev pr num have n: "pullRequestNumber f = Some 7"
    by (auto simp: switch_eventName_def case_pull_request_def Let_def split: if_splits)
  have up: "toUpperCase ''opened'' = ''OPENED''"
    by code_simp
  have d: "digits 7 = ''7''" by code_simp
  have g: "generateUser ''bob'' (userMapping sample_input) = ''bob''"
    by (simp add: generateUser_def sample_input_def)
  from p n up d g snd have "header_text c = Some ''PULL REQUEST #7 - OPENED''
       \<and> accent c = Some ''#2DA44E''
       \<and> actor_text c = Some ''bob opened this pull request.''"
    by (simp add: presents_def)
  with b show ?thesis by blast
qed


lemma getPullRequestDetail_ok:
  assumes "token = [] \<or> (\<exists>d. pulls_get w token owner r n = Inr d)"
  shows "\<exists>calls d. getPullRequestDetail w token owner r n = (calls, Inr d)"
  using assms by (auto simp: getPullRequestDetail_def)

lemma replace_review_states:
  "s \<in> set [''commented'', ''approved'', ''changes_requested'']
   \<Longrightarrow> replace CHR ''_'' CHR '' '' s = underscores_to_spaces s"
  by (auto simp: underscores_to_spaces_def)

lemma case_pull_request_review_submitted:
  assumes pr: "pull_request (payload ctx) = Some pr" "pr_user pr = Some u"
      "pr_requested_reviewers pr = Some rs"
    and rv: "review (payload ctx) = Some rv"
    and act: "action (payload ctx) = Some ''submitted''"
    and fetch: "getPullRequestDetail w (githubToken input) (repo_owner ctx) (repo_repo ctx) (pr_number pr) = (calls, Inr d)"
  shows "\<exists>f. case_pull_request_review w input ctx = (calls, Inr f)
           \<and> pullRequestNumber f = Some (pr_number pr)
           \<and> eventStatus f = Some (''review: '' @ replace CHR ''_'' CHR '' '' (review_state rv))
           \<and> (review_state rv = ''commented'' \<longrightarrow>
                 fcolor f = Some ''#BBDFFF'' \<and> message f = Some ''reviewed this pull request.'')
           \<and> (review_state rv = ''approved'' \<longrightarrow>
                 fcolor f = Some ''#2DA44E'' \<and> message f = Some ''approved this pull request.'')
           \<and> (review_state rv = ''changes_requested'' \<longrightarrow>
                 fcolor f = Some ''#CF222E''
                 \<and> message f = Some ''requested changes on this pull request.'')"
  using assms by (simp add: case_pull_request_review_def Let_def split: option.splits)


text \<open>
  C3: for every accepted \<open>pull_request_review\<close> event with action \<open>submitted\<close>, the
  status label is \<open>review: \<close> followed by the review state with its underscores
  replaced by spaces, and the colour and verb phrase follow the state: commented,
  \<open>#BBDFFF\<close>, ``reviewed this pull request.''; approved, \<open>#2DA44E\<close>, ``approved this
  pull request.''; changes\_requested, \<open>#CF222E\<close>, ``requested changes on this pull
  request.'', with the status text \<open>review: changes requested\<close>. The state is one of
  the three values its type declares; the detail fetch is skipped (no token) or
  answers.
\<close>

theorem review_submitted_table:
  assumes ev: "eventName ctx = ''pull_request_review''"
    and valid: "isValidEvent ctx = Inr True"
    and act: "action (payload ctx) = Some ''submitted''"
    and pr: "pull_request (payload ctx) = Some pr" "pr_user pr = Some u"
            "pr_requested_reviewers pr = Some rs"
    and rv: "review (payload ctx) = Some rv"
    and st: "review_state rv \<in> set [''commented'', ''approved'', ''changes_requested'']"
    and fetch: "githubToken input = []
                \<or> (\<exists>d. pulls_get w (githubToken input) (repo_owner ctx) (repo_repo ctx)
                           (pr_number pr) = Inr d)"
  shows "\<exists>calls f c. switch_eventName w input ctx = (calls, Inr f)
           \<and> buildMessageContent w input ctx = (calls, Inr c)
           \<and> eventStatus f = Some (''review: '' @ underscores_to_spaces (review_state rv))
           \<and> (review_state rv = ''commented''
                \<longrightarrow> presents input ctx f c ''review: commented'' ''#BBDFFF''
                      ''reviewed this pull request.'')
           \<and> (review_state rv = ''approved''
                \<longrightarrow> presents input ctx f c ''review: approved'' ''#2DA44E''
                      ''approved this pull request.'')
           \<and> (review_state rv = ''changes_requested''
                \<longrightarrow> presents input ctx f c ''review: changes requested'' ''#CF222E''
                      ''requested changes on this pull request.'')"
proof -
  from getPullRequestDetail_ok[OF fetch]
  obtain calls d where g: "getPullRequestDetail w (githubToken input) (repo_owner ctx)
                             (repo_repo ctx) (pr_number pr) = (calls, Inr d)" by blast
  from case_pull_request_review_submitted[OF pr rv act g]
  obtain f where f: "case_pull_request_review w input ctx = (calls, Inr f)"
    and es: "eventStatus f = Some (''review: '' @ replace CHR ''_'' CHR '' '' (review_state rv))"
    and c1: "review_state rv = ''commented'' \<longrightarrow>
                 fcolor f = Some ''#BBDFFF'' \<and> message f = Some ''reviewed this pull request.''"
    and c2: "review_state rv = ''approved'' \<longrightarrow>
                 fcolor f = Some ''#2DA44E'' \<and> message f = Some ''approved this pull request.''"
    and c3: "review_state rv = ''changes_requested'' \<longrightarrow>
                 fcolor f = Some ''#CF222E''
                 \<and> message f = Some ''requested changes on this pull request.''"
    by blast
  have sw: "switch_eventName w input ctx = (calls, Inr f)"
    using ev f by (simp add: switch_eventName_def)
  let ?c = "\<lparr>blocks = build_blocks f (userMapping input),
            attachments = [build_attachment f (sender (payload ctx)) (userMapping input)]\<rparr>"
  have b: "buildMessageContent w input ctx = (calls, Inr ?c)"
    using sw by (rule buildMessageContent_ok)
  have es': "eventStatus f = Some (''review: '' @ underscores_to_spaces (review_state rv))"
    using es replace_review_states[OF st] by simp
  have p1: "review_state rv = ''commented''
                \<longrightarrow> presents input ctx f ?c ''review: commented'' ''#BBDFFF''
                      ''reviewed this pull request.''"
    using es c1 by (auto intro!: presents_built)
  have p2: "review_state rv = ''approved''
                \<longrightarrow> presents input ctx f ?c ''review: approved'' ''#2DA44E''
                      ''approved this pull request.''"
    using es c2 by (auto intro!: presents_built)
  have p3: "review_state rv = ''changes_requested''
                \<longrightarrow> presents input ctx f ?c ''review: changes requested'' ''#CF222E''
                      ''requested changes on this pull request.''"
    using es c3 by (auto intro!: presents_built)
  from sw b es' p1 p2 p3 show ?thesis by blast
qed

theorem review_submitted_table_witness:
  "\<exists>c. buildMessageContent (sample_world webhook_inputs full_response) sample_input
          sample_review_context = ([], Inr c)
       \<and> header_text c = Some ''PULL REQUEST #7 - REVIEW: CHANGES REQUESTED''
       \<and> accent c = Some ''#CF222E''
       \<and> actor_text c = Some ''bob requested changes on this pull request.''"
proof -
  let ?w = "sample_world webhook_inputs full_response"
  let ?rv = "\<lparr>review_html_url = ''https://github.com/o/r/pull/7#r1'',
              review_state = ''changes_requested''\<rparr>"
  have ev: "eventName sample_review_context = ''pull_request_review''"
    by (simp add: sample_review_context_def)
  have valid: "isValidEvent sample_review_context = Inr True"
    by (simp add: isValidEvent_def sample_review_context_def sample_payload_def)
  have act: "action (payload sample_review_context) = Some ''submitted''"
    by (simp add: sample_review_context_def sample_payload_def)
  have pr: "pull_request (payload sample_review_context) = Some sample_pull_request"
    "pr_user sample_pull_request = Some \<lparr>login = ''alice'', avatar_url = ''https://a/alice.png''\<rparr>"
    "pr_requested_reviewers sample_pull_request = Some []"
    by (simp_all add: sample_review_context_def sample_payload_def sample_pull_request_def)
  have rv: "review (payload sample_review_context) = Some ?rv"
    by (simp add: sample_review_context_def sample_payload_def)
  have st: "review_state ?rv \<in> set [''commented'', ''approved'', ''changes_requested'']"
    by simp
  have fetch: "githubToken sample_input = []
                \<or> (\<exists>d. pulls_get ?w (githubToken sample_input) (repo_owner sample_review_context)
                      (repo_repo sample_review_context) (pr_number sample_pull_request) = Inr d)"
    by (simp add: sample_input_def)
  have snd: "sender (payload sample_review_context)
             = Some \<lparr>login = ''bob'', avatar_url = ''https://a/bob.png''\<rparr>"
    by (simp add: sample_review_context_def sample_payload_def)
  from review_submitted_table [OF ev valid act pr rv st fetch]
  obtain calls f c where sw: "switch_eventName ?w sample_input sample_review_context = (calls, Inr f)"
    and b: "buildMessageContent ?w sample_input sample_review_context = (calls, Inr c)"
    and p: "presents sample_input sample_review_context f c ''review: changes requested''
              ''#CF222E'' ''requested changes on this pull request.''"
    by auto
  from sw ev pr rv have n: "pullRequestNumber f = Some 7" and cs: "calls = []"
    by (auto simp: switch_eventName_def case_pull_request_review_def Let_def
          getPullRequestDetail_def sample_input_def sample_pull_request_def split: if_splits)
  have up: "toUpperCase ''review: changes requested'' = ''REVIEW: CHANGES REQUESTED''"
    by code_simp
  have d: "digits 7 = ''7''" by code_simp
  have g: "generateUser ''bob'' (userMapping sample_input) = ''bob''"
    by (simp add: generateUser_def sample_input_def)
  from p n up d g snd have "header_text c = Some ''PULL REQUEST #7 - REVIEW: CHANGES REQUESTED''
       \<and> accent c = Some ''#CF222E''
       \<and> actor_text c = Some ''bob requested changes on this pull request.''"
    by (simp add: presents_def)
  with b cs show ?thesis by blast
qed

text \<open>
  \<open>replace\<close> with a string pattern replaces the first occurrence only; the
  declared review states have at most one underscore.
\<close>

lemma replace_first_only:
  "replace CHR ''_'' CHR '' '' ''a_b_c'' = ''a b_c''"
  by simp

text \<open>
  C4: whenever the builder returns a message, its blocks are, in this order: the
  header, the title, the head branch section if the head branch is set, the base
  branch section if set, the changed files section if set, the labels section if
  the label list is not empty, the requested reviewers section if that list is not
  empty, the author section if the author is set and not empty, and the divider. A
  field that is absent contributes no block.
\<close>

theorem blocks_fixed_order:
  assumes "buildMessageContent w input ctx = (calls, Inr c)"
  shows "\<exists>f. switch_eventName w input ctx = (calls, Inr f)
          \<and> blocks c =
              [header_block f, title_block f]
              @ (case head f of None \<Rightarrow> [] | Some h \<Rightarrow> [head_block h])
              @ (case base f of None \<Rightarrow> [] | Some b \<Rightarrow> [base_block b])
              @ (case changedFiles f of None \<Rightarrow> [] | Some n \<Rightarrow> [changedFiles_block n])
              @ (if labels f \<noteq> [] then [labels_block (labels f)] else [])
              @ (if requestedReviewers f \<noteq> []
                 then [requestedReviewers_block (requestedReviewers f)] else [])
              @ (case createdBy f of
                   None \<Rightarrow> []
                 | Some a \<Rightarrow> if a = [] then [] else [createdBy_block a (userMapping input)])
              @ [Divider]"
proof (cases "switch_eventName w input ctx")
  case (Pair cs r)
  show ?thesis
  proof (cases r)
    case (Inl e)
    with Pair assms show ?thesis by (simp add: buildMessageContent_def)
  next
    case (Inr f)
    with Pair assms have "calls = cs" "c = \<lparr>blocks = build_blocks f (userMapping input),
        attachments = [build_attachment f (sender (payload ctx)) (userMapping input)]\<rparr>"
      by (simp_all add: buildMessageContent_def)
    with Pair Inr show ?thesis by (simp add: build_blocks_eq)
  qed
qed


theorem blocks_fixed_order_witness:
  "\<exists>c. buildMessageContent (sample_world webhook_inputs full_response) sample_input sample_context
          = ([], Inr c)
       \<and> blocks c =
           [Header (PlainText ''PULL REQUEST #7 - OPENED''),
            Section (Mrkdwn '':small_blue_diamond: *Title:  Add feature X*''),
            Section (Mrkdwn
              '':small_blue_diamond: *Head branch:*  <https://github.com/o/r/tree/feature-x|feature-x>''),
            Section (Mrkdwn
              '':small_blue_diamond: *Base branch:*  <https://github.com/o/r/tree/main|main>''),
            Section (Mrkdwn
              '':small_blue_diamond: *Files changed:*  <https://github.com/o/r/pull/7/files|3>''),
            Section (Mrkdwn '':label: *Labels:*  `bug`''),
            Section (Mrkdwn '':technologist: *Created by:*  <@U123> (alice)''),
            Divider]"
proof -
  let ?w = "sample_world webhook_inputs full_response"
  have "\<exists>c. buildMessageContent ?w sample_input sample_context = ([], Inr c)"
    by (simp add: buildMessageContent_def switch_eventName_def case_pull_request_def Let_def
          sample_context_def sample_payload_def sample_pull_request_def)
  then obtain c where b: "buildMessageContent ?w sample_input sample_context = ([], Inr c)"
    by blast
  from blocks_fixed_order [OF b]
  obtain f where sw: "switch_eventName ?w sample_input sample_context = ([], Inr f)"
    and bl: "blocks c =
              [header_block f, title_block f]
              @ (case head f of None \<Rightarrow> [] | Some h \<Rightarrow> [head_block h])
              @ (case base f of None \<Rightarrow> [] | Some b \<Rightarrow> [base_block b])
              @ (case changedFiles f of None \<Rightarrow> [] | Some n \<Rightarrow> [changedFiles_block n])
              @ (if labels f \<noteq> [] then [labels_block (labels f)] else [])
              @ (if requestedReviewers f \<noteq> []
                 then [requestedReviewers_block (requestedReviewers f)] else [])
              @ (case createdBy f of
                   None \<Rightarrow> []
                 | Some a \<Rightarrow> if a = [] then []
                            else [createdBy_block a (userMapping sample_input)])
              @ [Divider]"
    by blast
  from sw have flds:
    "pullRequestNumber f = Some 7" "eventStatus f = Some ''opened''"
    "title f = Some ''Add feature X''"
    "head f = Some (''https://github.com/o/r/tree/feature-x'', ''feature-x'')"
    "base f = Some (''https://github.com/o/r/tree/main'', ''main'')"
    "changedFiles f = Some (''https://github.com/o/r/pull/7/files'', 3)"
    "labels f = [''bug'']" "requestedReviewers f = []" "createdBy f = Some ''alice''"
    by (auto simp: switch_eventName_def case_pull_request_def Let_def generateBranchURL_def
          getRequestedReviewers_def sample_repository_def
          sample_context_def sample_payload_def sample_pull_request_def)
  have up: "toUpperCase ''opened'' = ''OPENED''" by code_simp
  have d: "digits 7 = ''7''" "digits 3 = ''3''" by code_simp+
  have g: "generateUser ''alice'' (userMapping sample_input) = ''<@U123> (alice)''"
    by (simp add: generateUser_def sample_input_def)
  from bl flds up d g have "blocks c =
           [Header (PlainText ''PULL REQUEST #7 - OPENED''),
            Section (Mrkdwn '':small_blue_diamond: *Title:  Add feature X*''),
            Section (Mrkdwn
              '':small_blue_diamond: *Head branch:*  <https://github.com/o/r/tree/feature-x|feature-x>''),
            Section (Mrkdwn
              '':small_blue_diamond: *Base branch:*  <https://github.com/o/r/tree/main|main>''),
            Section (Mrkdwn
              '':small_blue_diamond: *Files changed:*  <https://github.com/o/r/pull/7/files|3>''),
            Section (Mrkdwn '':label: *Labels:*  `bug`''),
            Section (Mrkdwn '':technologist: *Created by:*  <@U123> (alice)''),
            Divider]"
    by (simp add: header_block_def title_block_def head_block_def base_block_def
          changedFiles_block_def labels_block_def createdBy_block_def)
  with b show ?thesis by blast
qed


section \<open>Properties of the run\<close>

lemma getPullRequestDetail_calls:
  "\<forall>c \<in> set (fst (getPullRequestDetail w t ow r n)). is_pulls_get c"
  by (simp add: getPullRequestDetail_def)

lemma switch_eventName_calls:
  "\<forall>c \<in> set (fst (switch_eventName w input ctx)). is_pulls_get c"
proof -
  have a: "\<forall>c \<in> set (fst (case_pull_request_review w input ctx)). is_pulls_get c"
    using getPullRequestDetail_calls
    by (auto simp: case_pull_request_review_def Let_def getPullRequestDetail_def
          split: option.splits sum.splits prod.splits if_splits)
  have b: "\<forall>c \<in> set (fst (case_issue_comment w input ctx)). is_pulls_get c"
    by (auto simp: case_issue_comment_def Let_def getPullRequestDetail_def
          split: option.splits sum.splits prod.splits if_splits)
  show ?thesis using a b by (simp add: switch_eventName_def)
qed

lemma buildMessageContent_calls:
  "buildMessageContent w input ctx = (cs, r) \<Longrightarrow> \<forall>c \<in> set cs. is_pulls_get c"
  using switch_eventName_calls[of w input ctx]
  by (auto simp: buildMessageContent_def split: prod.splits sum.splits)

lemma parseInput_fields:
  "parseInput w = Inr input \<Longrightarrow>
     githubToken input = getInput w ''github-token''
     \<and> botToken input = getInput w ''slack-bot-token''
     \<and> channelId input = getInput w ''slack-channel-id''
     \<and> webhookUrl input = getInput w ''slack-webhook-url''"
  by (auto simp: parseInput_def Let_def split: sum.splits)

lemma parseInput_error:
  "parseInput w = Inl e \<Longrightarrow> e = JError mapping_message"
  by (auto simp: parseInput_def Let_def formatUserMapping_def mapping_message_def
        split: sum.splits option.splits)

lemma parseInput_malformed:
  "JSON_parse w (if getInput w ''user-mapping'' = [] then ''{}'' else getInput w ''user-mapping'') = None
   \<Longrightarrow> parseInput w = Inl (JError mapping_message)"
  by (simp add: parseInput_def Let_def formatUserMapping_def mapping_message_def)

lemma normalizeError_JError: "normalizeError (JError m) = JString m"
  by (simp add: normalizeError_def)

lemma run_valid:
  "isValidEvent ctx = Inr True \<Longrightarrow>
   run w ctx = (case run_try w ctx of
                  (calls, Inl error) \<Rightarrow> (calls, Failed (normalizeError error))
                | (calls, Inr u) \<Rightarrow> (calls, Completed))"
  by (simp add: run_def)

lemma run_not_valid:
  "isValidEvent ctx \<noteq> Inr True \<Longrightarrow> fst (run w ctx) = []"
  by (auto simp: run_def split: sum.splits)

text \<open>The calls of the \<open>try\<close> block: detail fetches, then at most one post, then at
  most one reaction.\<close>

lemma run_try_shape:
  assumes "run_try w ctx = (calls, res)"
  shows "(\<forall>c \<in> set calls. is_pulls_get c)
       \<or> (\<exists>input cs content. parseInput w = Inr input \<and> botToken input \<noteq> [] \<and> (\<forall>c \<in> set cs. is_pulls_get c)
            \<and> calls = cs @ [ChatPostMessage (botToken input) (channelId input) DEFAULT_TEXT content]
            \<and> (\<forall>r t m ss. chat_postMessage w (channelId input) DEFAULT_TEXT content = Inr r \<and> ts r = Some t
                    \<and> response_metadata r = Some m \<and> scopes m = Some ss
                  \<longrightarrow> t = [] \<or> ''reactions:write'' \<notin> set ss))
       \<or> (\<exists>input cs content r t m ss nm. parseInput w = Inr input \<and> botToken input \<noteq> [] \<and> (\<forall>c \<in> set cs. is_pulls_get c)
            \<and> calls = cs @ [ChatPostMessage (botToken input) (channelId input) DEFAULT_TEXT content,
                            ReactionsAdd (botToken input) (channelId input) nm t]
            \<and> chat_postMessage w (channelId input) DEFAULT_TEXT content = Inr r \<and> ts r = Some t \<and> t \<noteq> []
            \<and> response_metadata r = Some m \<and> scopes m = Some ss \<and> ''reactions:write'' \<in> set ss)
       \<or> (\<exists>input cs content. parseInput w = Inr input \<and> botToken input = [] \<and> (\<forall>c \<in> set cs. is_pulls_get c)
            \<and> calls = cs @ [WebhookSend (webhookUrl input) DEFAULT_TEXT content])"
proof (cases "parseInput w")
  case (Inl e)
  with assms show ?thesis by (simp add: run_try_def)
next
  case (Inr input)
  obtain cs b where b: "buildMessageContent w input ctx = (cs, b)" by (cases "buildMessageContent w input ctx")
  note pc = buildMessageContent_calls[OF b]
  show ?thesis
  proof (cases b)
    case (Inl e)
    with assms Inr b pc show ?thesis
      by (auto simp: run_try_def postMessage_def postMessageWithWebhook_def split: if_splits)
  next
    case content: (Inr content)
    show ?thesis
    proof (cases "botToken input = []")
      case True
      with assms Inr b pc content show ?thesis
        by (auto simp: run_try_def postMessageWithWebhook_def split: if_splits)
    next
      case False
      with assms Inr b pc content show ?thesis
        apply (simp add: run_try_def postMessage_def addReaction_def Let_def split: if_splits sum.splits option.splits prod.splits)
        apply (auto)
        done
    qed
  qed
qed


lemma pulls_not_reaction: "is_pulls_get c \<Longrightarrow> \<not> is_reaction c"
  by (cases c) simp_all

lemma run_calls:
  "fst (run w ctx) = (if isValidEvent ctx = Inr True then fst (run_try w ctx) else [])"
  by (auto simp: run_def split: sum.splits prod.splits)

text \<open>
  C8: a reaction is added only after a post to the same channel whose response
  carried a non-empty timestamp (the one the reaction names) and scopes that include
  \<open>reactions:write\<close>; when the response of the post lacks the timestamp or the
  scope, the run makes no reaction call; and a run that posts through the webhook
  makes no reaction call.
\<close>

theorem reaction_only_when_confirmed:
  "(ReactionsAdd tok ch nm t \<in> set (fst (run w ctx)) \<longrightarrow>
      (\<exists>content r m ss.
          ChatPostMessage tok ch DEFAULT_TEXT content \<in> set (fst (run w ctx))
          \<and> chat_postMessage w ch DEFAULT_TEXT content = Inr r
          \<and> ts r = Some t \<and> t \<noteq> []
          \<and> response_metadata r = Some m \<and> scopes m = Some ss
          \<and> ''reactions:write'' \<in> set ss))
   \<and> (ChatPostMessage tok ch msg content \<in> set (fst (run w ctx))
        \<and> chat_postMessage w ch msg content = Inr r
        \<and> (ts r = None \<or> ts r = Some []
            \<or> response_metadata r = None
            \<or> (\<exists>m. response_metadata r = Some m
                    \<and> (scopes m = None
                        \<or> (\<exists>ss. scopes m = Some ss \<and> ''reactions:write'' \<notin> set ss))))
      \<longrightarrow> (\<forall>c \<in> set (fst (run w ctx)). \<not> is_reaction c))
   \<and> (WebhookSend url msg content \<in> set (fst (run w ctx))
      \<longrightarrow> (\<forall>c \<in> set (fst (run w ctx)). \<not> is_reaction c))"
proof (cases "isValidEvent ctx = Inr True")
  case False
  then show ?thesis by (simp add: run_calls)
next
  case True
  obtain calls res where rt: "run_try w ctx = (calls, res)" by (cases "run_try w ctx")
  have fc: "fst (run w ctx) = calls" using True rt by (simp add: run_calls)
  from run_try_shape[OF rt]
  consider (pulls) "\<forall>c \<in> set calls. is_pulls_get c"
    | (post) input cs content' where "parseInput w = Inr input" "botToken input \<noteq> []"
        "\<forall>c \<in> set cs. is_pulls_get c"
        "calls = cs @ [ChatPostMessage (botToken input) (channelId input) DEFAULT_TEXT content']"
        "\<forall>r t m ss. chat_postMessage w (channelId input) DEFAULT_TEXT content' = Inr r \<and> ts r = Some t
                    \<and> response_metadata r = Some m \<and> scopes m = Some ss
                  \<longrightarrow> t = [] \<or> ''reactions:write'' \<notin> set ss"
    | (react) input cs content' r' t' m' ss' nm' where "parseInput w = Inr input" "botToken input \<noteq> []"
        "\<forall>c \<in> set cs. is_pulls_get c"
        "calls = cs @ [ChatPostMessage (botToken input) (channelId input) DEFAULT_TEXT content',
                            ReactionsAdd (botToken input) (channelId input) nm' t']"
        "chat_postMessage w (channelId input) DEFAULT_TEXT content' = Inr r'" "ts r' = Some t'" "t' \<noteq> []"
        "response_metadata r' = Some m'" "scopes m' = Some ss'" "''reactions:write'' \<in> set ss'"
    | (hook) input cs content' where "parseInput w = Inr input" "botToken input = []"
        "\<forall>c \<in> set cs. is_pulls_get c"
        "calls = cs @ [WebhookSend (webhookUrl input) DEFAULT_TEXT content']"
    by blast
  then show ?thesis
  proof cases
    case pulls
    then show ?thesis unfolding fc by (auto dest: pulls_not_reaction)
  next
    case post
    then show ?thesis unfolding fc by (auto dest: pulls_not_reaction)
  next
    case react
    then show ?thesis unfolding fc by (auto dest: pulls_not_reaction)
  next
    case hook
    then show ?thesis unfolding fc by (auto dest: pulls_not_reaction)
  qed
qed


lemma sample_parseInput_bot:
  "parseInput (sample_world bot_inputs r) =
     Inr \<lparr>githubToken = [], botToken = ''xoxb-1'', channelId = ''C1'', webhookUrl = [],
          userMapping = [''alice'' \<mapsto> JString ''U123'']\<rparr>"
  by (simp add: parseInput_def formatUserMapping_def sample_world_def bot_inputs_def
        sample_parse_def Object_keys_def get_property_def Let_def)

lemma sample_parseInput_webhook:
  "parseInput (sample_world webhook_inputs r) = Inr sample_input"
  by (simp add: parseInput_def formatUserMapping_def sample_world_def webhook_inputs_def
        sample_parse_def Object_keys_def get_property_def Let_def sample_input_def)

lemma sample_isValidEvent: "isValidEvent sample_context = Inr True"
  by (simp add: isValidEvent_def sample_context_def sample_payload_def)

lemma sample_buildMessageContent:
  "\<exists>content. buildMessageContent w input sample_context = ([], Inr content)"
  by (simp add: buildMessageContent_def switch_eventName_def case_pull_request_def Let_def
        sample_context_def sample_payload_def sample_pull_request_def)

lemma sample_world_sel:
  "chat_postMessage (sample_world i r) = (\<lambda>channel text content. Inr r)"
  "reactions_add (sample_world i r) = (\<lambda>channel name timestamp. Inr ())"
  "webhook_send (sample_world i r) = (\<lambda>url text content. Inr ())"
  "random_index (sample_world i r) = 3"
  "getInput (sample_world i r) = i"
  "JSON_parse (sample_world i r) = sample_parse"
  by (simp_all add: sample_world_def)

lemma sample_run_bot:
  assumes "buildMessageContent (sample_world bot_inputs r) 
     \<lparr>githubToken = [], botToken = ''xoxb-1'', channelId = ''C1'', webhookUrl = [],
          userMapping = [''alice'' \<mapsto> JString ''U123'']\<rparr> sample_context = ([], Inr content)"
  shows "fst (run (sample_world bot_inputs r) sample_context) =
     [ChatPostMessage ''xoxb-1'' ''C1'' DEFAULT_TEXT content]
     @ (if (case ts r of None \<Rightarrow> False | Some t \<Rightarrow> t \<noteq> [])
           \<and> (case response_metadata r of None \<Rightarrow> False
               | Some m \<Rightarrow> (case scopes m of None \<Rightarrow> False | Some ss \<Rightarrow> ''reactions:write'' \<in> set ss))
        then [ReactionsAdd ''xoxb-1'' ''C1'' (Some ''medal'') (the (ts r))] else [])"
  using assms
  by (auto simp: run_valid[OF sample_isValidEvent] run_try_def sample_parseInput_bot postMessage_def
      addReaction_def icons_def Let_def sample_world_sel split: option.splits)

lemma sample_run_webhook:
  assumes "buildMessageContent (sample_world webhook_inputs r) sample_input sample_context = ([], Inr content)"
  shows "run (sample_world webhook_inputs r) sample_context =
     ([WebhookSend ''https://hooks.slack.com/services/T/B/X'' DEFAULT_TEXT content], Completed)"
  using assms
  by (simp add: run_valid[OF sample_isValidEvent] run_try_def sample_parseInput_webhook
        postMessageWithWebhook_def sample_world_sel)
     (simp add: sample_input_def)

theorem reaction_only_when_confirmed_witness:
  "(\<exists>content r m ss.
        ChatPostMessage ''xoxb-1'' ''C1'' DEFAULT_TEXT content
           \<in> set (fst (run (sample_world bot_inputs full_response) sample_context))
        \<and> chat_postMessage (sample_world bot_inputs full_response) ''C1'' DEFAULT_TEXT content = Inr r
        \<and> ts r = Some ''1700000000.000100''
        \<and> response_metadata r = Some m \<and> scopes m = Some ss \<and> ''reactions:write'' \<in> set ss)
   \<and> filter is_reaction (fst (run (sample_world bot_inputs no_scope_response) sample_context))
       = []
   \<and> filter is_reaction (fst (run (sample_world webhook_inputs full_response) sample_context))
       = []"
proof -
  let ?in = "\<lparr>githubToken = [], botToken = ''xoxb-1'', channelId = ''C1'', webhookUrl = [],
          userMapping = [''alice'' \<mapsto> JString ''U123'']\<rparr>"
  let ?t = "''1700000000.000100''"
  \<comment> \<open>a reaction was added: the response had the timestamp and the scope\<close>
  let ?w1 = "sample_world bot_inputs full_response"
  obtain c1 where c1: "buildMessageContent ?w1 ?in sample_context = ([], Inr c1)"
    using sample_buildMessageContent by blast
  have r1: "ReactionsAdd ''xoxb-1'' ''C1'' (Some ''medal'') ?t \<in> set (fst (run ?w1 sample_context))"
    unfolding sample_run_bot[OF c1] by (simp add: full_response_def)
  from reaction_only_when_confirmed
         [where w = "?w1" and ctx = sample_context and tok = "''xoxb-1''" and ch = "''C1''"
            and nm = "Some ''medal''" and t = "?t"] r1
  have 1: "\<exists>content r m ss.
        ChatPostMessage ''xoxb-1'' ''C1'' DEFAULT_TEXT content \<in> set (fst (run ?w1 sample_context))
        \<and> chat_postMessage ?w1 ''C1'' DEFAULT_TEXT content = Inr r
        \<and> ts r = Some ?t
        \<and> response_metadata r = Some m \<and> scopes m = Some ss \<and> ''reactions:write'' \<in> set ss"
    by blast
  \<comment> \<open>the scope is missing: no reaction\<close>
  let ?w2 = "sample_world bot_inputs no_scope_response"
  obtain c2 where c2: "buildMessageContent ?w2 ?in sample_context = ([], Inr c2)"
    using sample_buildMessageContent by blast
  have p2: "ChatPostMessage ''xoxb-1'' ''C1'' DEFAULT_TEXT c2 \<in> set (fst (run ?w2 sample_context))"
    unfolding sample_run_bot[OF c2] by simp
  have q2: "chat_postMessage ?w2 ''C1'' DEFAULT_TEXT c2 = Inr no_scope_response"
    by (simp add: sample_world_sel)
  have s2: "\<exists>m. response_metadata no_scope_response = Some m
              \<and> (scopes m = None \<or> (\<exists>ss. scopes m = Some ss \<and> ''reactions:write'' \<notin> set ss))"
    by (simp add: no_scope_response_def)
  from reaction_only_when_confirmed
         [where w = "?w2" and ctx = sample_context and tok = "''xoxb-1''" and ch = "''C1''"
            and msg = DEFAULT_TEXT and content = c2 and r = no_scope_response]
       p2 q2 s2
  have 2: "\<forall>c \<in> set (fst (run ?w2 sample_context)). \<not> is_reaction c" by blast
  \<comment> \<open>the webhook path\<close>
  let ?w3 = "sample_world webhook_inputs full_response"
  obtain c3 where c3: "buildMessageContent ?w3 sample_input sample_context = ([], Inr c3)"
    using sample_buildMessageContent by blast
  have p3: "WebhookSend ''https://hooks.slack.com/services/T/B/X'' DEFAULT_TEXT c3
              \<in> set (fst (run ?w3 sample_context))"
    by (simp add: sample_run_webhook[OF c3])
  from reaction_only_when_confirmed
         [where w = "?w3" and ctx = sample_context and msg = DEFAULT_TEXT and content = c3
            and url = "''https://hooks.slack.com/services/T/B/X''"] p3
  have 3: "\<forall>c \<in> set (fst (run ?w3 sample_context)). \<not> is_reaction c" by blast
  from 2 have n2: "filter is_reaction (fst (run ?w2 sample_context)) = []"
    by (simp only: filter_empty_conv)
  from 3 have n3: "filter is_reaction (fst (run ?w3 sample_context)) = []"
    by (simp only: filter_empty_conv)
  from 1 n2 n3 show ?thesis by blast
qed


lemma run_try_no_credentials:
  assumes "parseInput w = Inr input" "getInput w ''slack-bot-token'' = []"
    "getInput w ''slack-webhook-url'' = []"
  shows "run_try w ctx = ([], Inl (JError need_one_message))"
  using assms parseInput_fields[OF assms(1)]
  by (simp add: run_try_def need_one_message_def)

lemma run_try_no_channel:
  assumes "parseInput w = Inr input" "getInput w ''slack-bot-token'' \<noteq> []"
    "getInput w ''slack-channel-id'' = []"
  shows "run_try w ctx = ([], Inl (JError channel_required_message))"
  using assms parseInput_fields[OF assms(1)]
  by (simp add: run_try_def channel_required_message_def)

lemma run_try_webhook:
  assumes "parseInput w = Inr input" "getInput w ''slack-bot-token'' = []"
    "getInput w ''slack-webhook-url'' \<noteq> []"
  shows "run_try w ctx = postMessageWithWebhook w input ctx"
  using assms parseInput_fields[OF assms(1)]
  by (simp add: run_try_def)

lemma run_try_bot:
  assumes "parseInput w = Inr input" "getInput w ''slack-bot-token'' \<noteq> []"
    "getInput w ''slack-channel-id'' \<noteq> []"
  shows "\<exists>cs. fst (run_try w ctx) = fst (postMessage w input ctx) @ cs"
  using assms parseInput_fields[OF assms(1)]
  by (auto simp: run_try_def split: prod.splits sum.splits option.splits)

lemma postMessage_posts:
  "buildMessageContent w input ctx = (cs, Inr content) \<Longrightarrow>
   fst (postMessage w input ctx)
     = cs @ [ChatPostMessage (botToken input) (channelId input) DEFAULT_TEXT content]"
  by (simp add: postMessage_def)

lemma postMessageWithWebhook_posts:
  "buildMessageContent w input ctx = (cs, Inr content) \<Longrightarrow>
   fst (postMessageWithWebhook w input ctx)
     = cs @ [WebhookSend (webhookUrl input) DEFAULT_TEXT content]"
  by (simp add: postMessageWithWebhook_def)

text \<open>
  C5, as stated, at an event the classifier rejects (a \<open>push\<close>): both the bot token
  and the webhook URL are empty, and the run is skipped; it does not fail.
\<close>

theorem skipped_without_credentials:
  "getInput (sample_world no_inputs full_response) ''slack-bot-token'' = []
   \<and> getInput (sample_world no_inputs full_response) ''slack-webhook-url'' = []
   \<and> run (sample_world no_inputs full_response) sample_push_context = ([], Skipped)"
  by (simp add: sample_world_sel no_inputs_def run_def isValidEvent_def sample_push_context_def)

text \<open>
  C5 (amended): for an event the classifier accepts and a user mapping that parses:
  with the bot token and the webhook URL both empty, the run fails, before any
  outbound call, with the message that at least one must be provided; with a bot
  token and an empty channel id, it fails with the message that the channel id is
  required; with a bot token and a channel id, \<open>postMessage\<close> runs and, once the
  message is built, posts it to the channel; with a webhook URL and no bot token,
  \<open>postMessageWithWebhook\<close> runs and, once the message is built, sends it to the URL.
\<close>

theorem credential_validation:
  assumes valid: "isValidEvent ctx = Inr True"
    and parsed: "parseInput w = Inr input"
  shows "(getInput w ''slack-bot-token'' = [] \<and> getInput w ''slack-webhook-url'' = []
            \<longrightarrow> run w ctx = ([], Failed (JString need_one_message)))
       \<and> (getInput w ''slack-bot-token'' \<noteq> [] \<and> getInput w ''slack-channel-id'' = []
            \<longrightarrow> run w ctx = ([], Failed (JString channel_required_message)))
       \<and> (getInput w ''slack-bot-token'' \<noteq> [] \<and> getInput w ''slack-channel-id'' \<noteq> []
            \<longrightarrow> (\<exists>cs. fst (run w ctx) = fst (postMessage w input ctx) @ cs)
                \<and> (\<forall>cs content. buildMessageContent w input ctx = (cs, Inr content)
                      \<longrightarrow> ChatPostMessage (getInput w ''slack-bot-token'')
                            (getInput w ''slack-channel-id'') DEFAULT_TEXT content
                          \<in> set (fst (run w ctx))))
       \<and> (getInput w ''slack-bot-token'' = [] \<and> getInput w ''slack-webhook-url'' \<noteq> []
            \<longrightarrow> fst (run w ctx) = fst (postMessageWithWebhook w input ctx)
                \<and> (\<forall>cs content. buildMessageContent w input ctx = (cs, Inr content)
                      \<longrightarrow> WebhookSend (getInput w ''slack-webhook-url'') DEFAULT_TEXT content
                          \<in> set (fst (run w ctx))))"
proof -
  note rv = run_valid[OF valid, of w]
  note pf = parseInput_fields[OF parsed]
  have fr: "fst (run w ctx) = fst (run_try w ctx)" using valid by (simp add: run_calls)
  have 1: "getInput w ''slack-bot-token'' = [] \<and> getInput w ''slack-webhook-url'' = []
            \<longrightarrow> run w ctx = ([], Failed (JString need_one_message))"
    using run_try_no_credentials[OF parsed, of ctx] by (simp add: rv normalizeError_JError)
  have 2: "getInput w ''slack-bot-token'' \<noteq> [] \<and> getInput w ''slack-channel-id'' = []
            \<longrightarrow> run w ctx = ([], Failed (JString channel_required_message))"
    using run_try_no_channel[OF parsed, of ctx] by (simp add: rv normalizeError_JError)
  have 3: "getInput w ''slack-bot-token'' \<noteq> [] \<and> getInput w ''slack-channel-id'' \<noteq> []
            \<longrightarrow> (\<exists>cs. fst (run w ctx) = fst (postMessage w input ctx) @ cs)
                \<and> (\<forall>cs content. buildMessageContent w input ctx = (cs, Inr content)
                      \<longrightarrow> ChatPostMessage (getInput w ''slack-bot-token'')
                            (getInput w ''slack-channel-id'') DEFAULT_TEXT content
                          \<in> set (fst (run w ctx)))"
  proof (intro impI conjI allI)
    assume a: "getInput w ''slack-bot-token'' \<noteq> [] \<and> getInput w ''slack-channel-id'' \<noteq> []"
    from run_try_bot[OF parsed, of ctx] a
    obtain cs where cs: "fst (run_try w ctx) = fst (postMessage w input ctx) @ cs" by blast
    then show "\<exists>cs. fst (run w ctx) = fst (postMessage w input ctx) @ cs"
      unfolding fr by blast
    fix cs' content
    assume "buildMessageContent w input ctx = (cs', Inr content)"
    from postMessage_posts[OF this] cs pf
    show "ChatPostMessage (getInput w ''slack-bot-token'')
            (getInput w ''slack-channel-id'') DEFAULT_TEXT content \<in> set (fst (run w ctx))"
      unfolding fr by simp
  qed
  have 4: "getInput w ''slack-bot-token'' = [] \<and> getInput w ''slack-webhook-url'' \<noteq> []
            \<longrightarrow> fst (run w ctx) = fst (postMessageWithWebhook w input ctx)
                \<and> (\<forall>cs content. buildMessageContent w input ctx = (cs, Inr content)
                      \<longrightarrow> WebhookSend (getInput w ''slack-webhook-url'') DEFAULT_TEXT content
                          \<in> set (fst (run w ctx)))"
  proof (intro impI conjI allI)
    assume a: "getInput w ''slack-bot-token'' = [] \<and> getInput w ''slack-webhook-url'' \<noteq> []"
    with run_try_webhook[OF parsed, of ctx]
    have e: "run_try w ctx = postMessageWithWebhook w input ctx" by blast
    then show "fst (run w ctx) = fst (postMessageWithWebhook w input ctx)"
      unfolding fr by simp
    fix cs' content
    assume "buildMessageContent w input ctx = (cs', Inr content)"
    from postMessageWithWebhook_posts[OF this] e pf
    show "WebhookSend (getInput w ''slack-webhook-url'') DEFAULT_TEXT content
            \<in> set (fst (run w ctx))"
      unfolding fr by simp
  qed
  from 1 2 3 4 show ?thesis by blast
qed

lemma sample_parseInput_empty_mapping:
  assumes "i ''user-mapping'' = []"
  shows "\<exists>input. parseInput (sample_world i r) = Inr input"
  using assms
  by (simp add: parseInput_def formatUserMapping_def sample_world_sel
        sample_parse_def Object_keys_def Let_def)

theorem credential_validation_witness:
  "run (sample_world no_inputs full_response) sample_context
     = ([], Failed (JString need_one_message))
   \<and> run (sample_world bot_only_inputs full_response) sample_context
     = ([], Failed (JString channel_required_message))
   \<and> (\<exists>content. WebhookSend ''https://hooks.slack.com/services/T/B/X'' DEFAULT_TEXT content
         \<in> set (fst (run (sample_world webhook_inputs full_response) sample_context)))"
proof -
  let ?w1 = "sample_world no_inputs full_response"
  obtain i1 where i1: "parseInput ?w1 = Inr i1"
    using sample_parseInput_empty_mapping[of no_inputs] by (auto simp: no_inputs_def)
  have h1: "getInput ?w1 ''slack-bot-token'' = [] \<and> getInput ?w1 ''slack-webhook-url'' = []"
    by (simp add: sample_world_sel no_inputs_def)
  from credential_validation [OF sample_isValidEvent i1] h1
  have 1: "run ?w1 sample_context = ([], Failed (JString need_one_message))" by blast
  let ?w2 = "sample_world bot_only_inputs full_response"
  obtain i2 where i2: "parseInput ?w2 = Inr i2"
    using sample_parseInput_empty_mapping[of bot_only_inputs] by (auto simp: bot_only_inputs_def)
  have h2: "getInput ?w2 ''slack-bot-token'' \<noteq> [] \<and> getInput ?w2 ''slack-channel-id'' = []"
    by (simp add: sample_world_sel bot_only_inputs_def)
  from credential_validation [OF sample_isValidEvent i2] h2
  have 2: "run ?w2 sample_context = ([], Failed (JString channel_required_message))" by blast
  let ?w3 = "sample_world webhook_inputs full_response"
  note i3 = sample_parseInput_webhook[of full_response]
  have h3: "getInput ?w3 ''slack-bot-token'' = [] \<and> getInput ?w3 ''slack-webhook-url'' \<noteq> []"
    by (simp add: sample_world_sel webhook_inputs_def)
  have u3: "getInput ?w3 ''slack-webhook-url'' = ''https://hooks.slack.com/services/T/B/X''"
    by (simp add: sample_world_sel webhook_inputs_def)
  obtain c3 where c3: "buildMessageContent ?w3 sample_input sample_context = ([], Inr c3)"
    using sample_buildMessageContent by blast
  from credential_validation [OF sample_isValidEvent i3] h3 c3
  have "WebhookSend (getInput ?w3 ''slack-webhook-url'') DEFAULT_TEXT c3
          \<in> set (fst (run ?w3 sample_context))" by blast
  then have 3: "\<exists>content. WebhookSend ''https://hooks.slack.com/services/T/B/X'' DEFAULT_TEXT content
         \<in> set (fst (run ?w3 sample_context))"
    unfolding u3 by blast
  from 1 2 3 show ?thesis by blast
qed

text \<open>
  C9, as stated, at an event the classifier rejects (a \<open>pull_request\<close> event with
  action \<open>synchronize\<close>): the user mapping is not valid JSON, and the run is skipped;
  no error is surfaced.
\<close>

theorem skipped_with_malformed_mapping:
  "JSON_parse (sample_world bad_mapping_inputs full_response)
       (getInput (sample_world bad_mapping_inputs full_response) ''user-mapping'') = None
   \<and> run (sample_world bad_mapping_inputs full_response) sample_synchronize_context
       = ([], Skipped)"
  by (simp add: sample_world_sel bad_mapping_inputs_def sample_parse_def run_def isValidEvent_def
        sample_synchronize_context_def sample_payload_def)

text \<open>
  C9 (amended): for every run on an event the classifier accepts, if the user mapping
  is not valid JSON, or the bot token and webhook URL are both empty, or there is a
  bot token but no channel id, then the run fails before any outbound call, with one
  of the three configuration messages; a malformed user mapping gives the message
  about the user mapping.
\<close>

theorem configuration_errors_fail:
  assumes valid: "isValidEvent ctx = Inr True"
    and missing: "JSON_parse w (if getInput w ''user-mapping'' = [] then ''{}''
                                else getInput w ''user-mapping'') = None
                  \<or> (getInput w ''slack-bot-token'' = [] \<and> getInput w ''slack-webhook-url'' = [])
                  \<or> (getInput w ''slack-bot-token'' \<noteq> [] \<and> getInput w ''slack-channel-id'' = [])"
  shows "(run w ctx = ([], Failed (JString mapping_message))
          \<or> run w ctx = ([], Failed (JString need_one_message))
          \<or> run w ctx = ([], Failed (JString channel_required_message)))
       \<and> (JSON_parse w (if getInput w ''user-mapping'' = [] then ''{}''
                          else getInput w ''user-mapping'') = None
            \<longrightarrow> run w ctx = ([], Failed (JString mapping_message)))"
proof (cases "parseInput w")
  case (Inl e)
  with parseInput_error[OF Inl] have "run_try w ctx = ([], Inl (JError mapping_message))"
    by (simp add: run_try_def)
  then show ?thesis by (simp add: run_valid[OF valid] normalizeError_JError)
next
  case (Inr input)
  have np: "JSON_parse w (if getInput w ''user-mapping'' = [] then ''{}''
                           else getInput w ''user-mapping'') \<noteq> None"
  proof
    assume "JSON_parse w (if getInput w ''user-mapping'' = [] then ''{}''
                          else getInput w ''user-mapping'') = None"
    from parseInput_malformed[OF this] Inr show False by simp
  qed
  with missing consider
      (a) "getInput w ''slack-bot-token'' = []" "getInput w ''slack-webhook-url'' = []"
    | (b) "getInput w ''slack-bot-token'' \<noteq> []" "getInput w ''slack-channel-id'' = []"
    by blast
  then show ?thesis
  proof cases
    case a
    from run_try_no_credentials[OF Inr a, of ctx]
    have "run w ctx = ([], Failed (JString need_one_message))"
      by (simp add: run_valid[OF valid] normalizeError_JError)
    with np show ?thesis by blast
  next
    case b
    from run_try_no_channel[OF Inr b, of ctx]
    have "run w ctx = ([], Failed (JString channel_required_message))"
      by (simp add: run_valid[OF valid] normalizeError_JError)
    with np show ?thesis by blast
  qed
qed

theorem configuration_errors_fail_witness:
  "run (sample_world bad_mapping_inputs full_response) sample_context
     = ([], Failed (JString mapping_message))"
proof -
  let ?w = "sample_world bad_mapping_inputs full_response"
  have m: "JSON_parse ?w (if getInput ?w ''user-mapping'' = [] then ''{}''
                           else getInput ?w ''user-mapping'') = None"
    by (simp add: sample_world_sel bad_mapping_inputs_def sample_parse_def)
  from configuration_errors_fail [OF sample_isValidEvent, of ?w] m show ?thesis by blast
qed


end
